theory Spec2Isabelle
  imports Complex_Main "HOL-Library.Log_Nat"
begin

section \<open>Python floats\<close>

text \<open>
  A Python \<^verbatim>\<open>float\<close> (and a numpy \<^verbatim>\<open>float64\<close>) is an IEEE 754 binary64 number. A finite
  float is modelled by the real number it denotes, and every arithmetic operation
  returns the exact result rounded to the nearest binary64 number, ties to the even
  significand. \<open>quantum x\<close> is the exponent of the unit in the last place of the
  result: 53 significant bits, and never below \<open>-1074\<close> (the subnormal range).
  Infinities, NaN and exponent overflow are not part of this arithmetic; the section on
  all binary64 values adds them for the heater command.
\<close>

definition rne :: "real \<Rightarrow> int" where
  "rne x = (let f = \<lfloor>x\<rfloor>; d = x - of_int f in
     if d < 1 / 2 then f else if 1 / 2 < d then f + 1 else if even f then f else f + 1)"

definition quantum :: "real \<Rightarrow> int" where
  "quantum x = max (int (floorlog 2 (nat \<lfloor>\<bar>x\<bar> * 2 ^ 1074\<rfloor>)) - 53) 0 - 1074"

definition fl :: "real \<Rightarrow> real" where
  "fl x = of_int (rne (x / 2 powi quantum x)) * 2 powi quantum x"

definition fadd :: "real \<Rightarrow> real \<Rightarrow> real" where
  "fadd x y = fl (x + y)"

definition fsub :: "real \<Rightarrow> real \<Rightarrow> real" where
  "fsub x y = fl (x - y)"

definition fmul :: "real \<Rightarrow> real \<Rightarrow> real" where
  "fmul x y = fl (x * y)"

text \<open>Float division; the caller checks for a zero divisor, where Python raises.\<close>

definition fdiv :: "real \<Rightarrow> real \<Rightarrow> real" where
  "fdiv x y = fl (x / y)"

text \<open>\<^verbatim>\<open>int(x)\<close> of a float truncates towards zero.\<close>

definition py_int :: "real \<Rightarrow> int" where
  "py_int x = (if 0 \<le> x then \<lfloor>x\<rfloor> else \<lceil>x\<rceil>)"

text \<open>\<^verbatim>\<open>np.clip(a, a_min, a_max)\<close> is \<^verbatim>\<open>minimum(a_max, maximum(a, a_min))\<close>.\<close>

definition clip :: "real \<Rightarrow> real \<Rightarrow> real \<Rightarrow> real" where
  "clip a a_min a_max = min a_max (max a a_min)"

section \<open>Exceptions\<close>

text \<open>
  The exceptions that occur in the program and its collaborators. \<open>KeyboardInterrupt\<close>
  and \<open>SystemExit\<close> derive from \<^verbatim>\<open>BaseException\<close> only, so a handler
  \<^verbatim>\<open>except Exception\<close> does not catch them; a bare \<^verbatim>\<open>except:\<close> catches everything.
\<close>

datatype exc =
  ValueError | ZeroDivisionError | IndexError | EOFError | RuntimeError
  | KeyboardInterrupt | SystemExit

fun is_Exception :: "exc \<Rightarrow> bool" where
  "is_Exception KeyboardInterrupt = False"
| "is_Exception SystemExit = False"
| "is_Exception _ = True"

section \<open>The device, the plot and the clock\<close>

text \<open>
  The program talks to the TCLab device, to matplotlib and to the clock. The calls it
  makes are recorded in order in a trace. What the outside world answers is given by a
  \<open>world\<close>: for every call site of a device call and of \<^verbatim>\<open>time.sleep\<close>, whether that
  call raises (and what), and the temperature a successful read returns. The sites in
  the loop are indexed by the cycle. Calls to matplotlib and \<^verbatim>\<open>print\<close> are recorded
  but taken to succeed; the figure set-up before the \<^verbatim>\<open>try\<close> block and the axis limits
  are not modelled. \<open>processing_time w i\<close> is the time that cycle \<open>i\<close> has spent on
  sensing, computing and rendering when it reaches \<^verbatim>\<open>time.sleep\<close>; it belongs to the
  world, and the program never measures it.
\<close>

datatype site =
  AtConnect | AtInitQ1 | AtInitQ2 | AtInitLED | AtInitT1
  | AtRead nat | AtHeater nat | AtSleep nat
  | AtFinalQ1 | AtClose

record world =
  fails :: "site \<Rightarrow> exc option"
  temperature :: "site \<Rightarrow> real"
  processing_time :: "nat \<Rightarrow> real"

datatype line = line1 | line_sp | line2

datatype call =
  TCLab | Q1_call real | Q2_call real | LED_call real | T1_read | close_call
  | set_data line "real list" "real list" | plt_draw | plt_pause real | time_sleep real
  | print_connecting | print_connected | print_initial real | print_complete
  | print_error exc | print_ensuring | plt_ioff | plt_show

text \<open>The local variables of \<^verbatim>\<open>run_pi_controller\<close>; \<open>lab\<close> is true when \<^verbatim>\<open>lab is not None\<close>.\<close>

record locals =
  t :: "real list"
  T1 :: "real list"
  T_sp_array :: "real list"
  Q1 :: "real list"
  integral_error :: real
  lab :: bool
  trace :: "call list"

definition emit :: "call \<Rightarrow> locals \<Rightarrow> locals" where
  "emit c s = s\<lparr>trace := trace s @ [c]\<rparr>"

text \<open>A call that may raise: it is recorded, and the world decides its outcome.\<close>

definition external :: "world \<Rightarrow> site \<Rightarrow> call \<Rightarrow> locals \<Rightarrow> exc option \<times> locals" where
  "external w p c s = (fails w p, emit c s)"

text \<open>Sequencing: an exception skips the rest of the block.\<close>

definition andthen ::
  "exc option \<times> locals \<Rightarrow> (locals \<Rightarrow> exc option \<times> locals) \<Rightarrow> exc option \<times> locals" where
  "andthen r f = (case r of (Some e, s) \<Rightarrow> (Some e, s) | (None, s) \<Rightarrow> f s)"

section \<open>The control loop\<close>

definition OP_bias :: real where
  "OP_bias = 0"

definition delta_t :: real where
  "delta_t = 2"

text \<open>
  One pass through the body of \<^verbatim>\<open>for i in range(n)\<close>. An index outside an array
  raises \<open>IndexError\<close>, as numpy does.
\<close>

definition cycle ::
  "world \<Rightarrow> real \<Rightarrow> real \<Rightarrow> real \<Rightarrow> nat \<Rightarrow> locals \<Rightarrow> exc option \<times> locals" where
  "cycle w T_sp Kp Ki i s0 =
    (if length (t s0) \<le> i then (Some IndexError, s0) else
     let s1 = emit T1_read (s0\<lparr>t := (t s0)[i := fmul (fl (of_nat i)) delta_t]\<rparr>) in
     if fails w (AtRead i) \<noteq> None then (fails w (AtRead i), s1) else
     if length (T1 s1) \<le> i then (Some IndexError, s1) else
     let s2 = s1\<lparr>T1 := (T1 s1)[i := temperature w (AtRead i)]\<rparr> in
     if length (T_sp_array s2) \<le> i then (Some IndexError, s2) else
     let s3 = s2\<lparr>T_sp_array := (T_sp_array s2)[i := T_sp]\<rparr>;
         error = fsub T_sp (T1 s3 ! i);
         P_term = fmul Kp error;
         s4 = s3\<lparr>integral_error := fadd (integral_error s3) (fmul error delta_t)\<rparr>;
         I_term = fmul Ki (integral_error s4);
         OP = fadd (fadd OP_bias P_term) I_term in
     if length (Q1 s4) \<le> i then (Some IndexError, s4) else
     let s5 = s4\<lparr>Q1 := (Q1 s4)[i := clip OP 0 100]\<rparr>;
         s6 = emit (Q1_call (Q1 s5 ! i)) s5 in
     if fails w (AtHeater i) \<noteq> None then (fails w (AtHeater i), s6) else
     let s7 = (if \<not> (0 < Q1 s6 ! i \<and> Q1 s6 ! i < 100)
               then s6\<lparr>integral_error := fsub (integral_error s6) (fmul error delta_t)\<rparr>
               else s6);
         s8 = emit (set_data line1 (take (i + 1) (t s7)) (take (i + 1) (T1 s7))) s7;
         s9 = emit (set_data line_sp (take (i + 1) (t s8)) (take (i + 1) (T_sp_array s8))) s8;
         s10 = emit (set_data line2 (take (i + 1) (t s9)) (take (i + 1) (Q1 s9))) s9;
         s11 = emit (plt_pause (fl (5 / 100))) (emit plt_draw s10)
     in external w (AtSleep i) (time_sleep (fsub delta_t (fl (5 / 100)))) s11)"

fun main_loop ::
  "world \<Rightarrow> real \<Rightarrow> real \<Rightarrow> real \<Rightarrow> nat list \<Rightarrow> locals \<Rightarrow> exc option \<times> locals" where
  "main_loop w T_sp Kp Ki [] s = (None, s)"
| "main_loop w T_sp Kp Ki (i # is) s =
     andthen (cycle w T_sp Kp Ki i s) (main_loop w T_sp Kp Ki is)"

text \<open>The body of the \<^verbatim>\<open>try\<close> block: connect, initialise the device, run the loop.\<close>

definition try_body ::
  "world \<Rightarrow> real \<Rightarrow> real \<Rightarrow> real \<Rightarrow> nat \<Rightarrow> locals \<Rightarrow> exc option \<times> locals" where
  "try_body w T_sp Kp Ki n s0 =
     andthen (external w AtConnect TCLab (emit print_connecting s0)) (\<lambda>s1.
     andthen (external w AtInitQ1 (Q1_call 0) (emit print_connected (s1\<lparr>lab := True\<rparr>))) (\<lambda>s2.
     andthen (external w AtInitQ2 (Q2_call 0) s2) (\<lambda>s3.
     andthen (external w AtInitLED (LED_call 100) s3) (\<lambda>s4.
     andthen (external w AtInitT1 T1_read s4) (\<lambda>s5.
     andthen (main_loop w T_sp Kp Ki [0..<n] (emit (print_initial (temperature w AtInitT1)) s5))
       (\<lambda>s6. (None, emit print_complete s6)))))))"

text \<open>
  The \<^verbatim>\<open>finally\<close> block. The inner \<^verbatim>\<open>try\<close> has a bare \<^verbatim>\<open>except: pass\<close>: whatever
  \<^verbatim>\<open>lab.Q1(0)\<close> or \<^verbatim>\<open>lab.close()\<close> raises is dropped.
\<close>

definition cleanup :: "world \<Rightarrow> locals \<Rightarrow> locals" where
  "cleanup w s0 =
    (let s1 = emit print_ensuring s0;
         s2 = (if lab s1
               then snd (andthen (external w AtFinalQ1 (Q1_call 0) s1)
                                 (external w AtClose close_call))
               else s1)
     in emit plt_show (emit plt_ioff s2))"

text \<open>
  \<^verbatim>\<open>run_pi_controller(duration, T_sp, Kp, Ki)\<close>. The first component of the result is
  the exception that reaches the caller, \<open>None\<close> when the function returns normally.
  \<^verbatim>\<open>np.zeros(n)\<close> raises \<open>ValueError\<close> for a negative \<open>n\<close>, before the \<^verbatim>\<open>try\<close> block.
  \<^verbatim>\<open>except Exception\<close> handles the instances of \<^verbatim>\<open>Exception\<close>; any other exception
  stays pending while the \<^verbatim>\<open>finally\<close> block runs and is raised again after it.
\<close>

definition init_locals :: "nat \<Rightarrow> locals" where
  "init_locals n = \<lparr>t = replicate n 0, T1 = replicate n 0, T_sp_array = replicate n 0,
     Q1 = replicate n 0, integral_error = 0, lab = False, trace = []\<rparr>"

definition run_pi_controller ::
  "world \<Rightarrow> real \<Rightarrow> real \<Rightarrow> real \<Rightarrow> real \<Rightarrow> exc option \<times> locals" where
  "run_pi_controller w duration T_sp Kp Ki =
    (let n = py_int (fdiv duration delta_t) in
     if n < 0 then (Some ValueError, init_locals 0) else
     case try_body w T_sp Kp Ki (nat n) (init_locals (nat n)) of
       (None, s) \<Rightarrow> (None, cleanup w s)
     | (Some e, s) \<Rightarrow>
         if is_Exception e then (None, cleanup w (emit (print_error e) s))
         else (Some e, cleanup w s))"

section \<open>The console\<close>

text \<open>
  The four prompts of the main block. The console is a list of input lines;
  \<^verbatim>\<open>input()\<close> on an exhausted console raises \<open>EOFError\<close>. Python's \<^verbatim>\<open>float(str)\<close> is a
  parameter \<open>float\<close>: \<open>None\<close> stands for its \<open>ValueError\<close>.
\<close>

text \<open>\<^verbatim>\<open>s.split(sep)\<close> for a one-character separator.\<close>

fun split :: "char \<Rightarrow> string \<Rightarrow> string list" where
  "split sep [] = [[]]"
| "split sep (c # cs) =
     (if c = sep then [] # split sep cs
      else (case split sep cs of p # ps \<Rightarrow> (c # p) # ps | [] \<Rightarrow> [[c]]))"

text \<open>The duration prompt: repeated until a line parses to a positive number.\<close>

fun input_duration ::
  "(string \<Rightarrow> real option) \<Rightarrow> string list \<Rightarrow> exc + real \<times> string list" where
  "input_duration float [] = Inl EOFError"
| "input_duration float (duration_input # rest) =
     (case float duration_input of
        None \<Rightarrow> input_duration float rest
      | Some duration_val \<Rightarrow>
          if duration_val \<le> 0 then input_duration float rest else Inr (duration_val, rest))"

text \<open>The set point prompt and the Kp prompt: repeated until a line parses.\<close>

fun input_setpoint ::
  "(string \<Rightarrow> real option) \<Rightarrow> string list \<Rightarrow> exc + real \<times> string list" where
  "input_setpoint float [] = Inl EOFError"
| "input_setpoint float (tsp_input # rest) =
     (case float tsp_input of
        None \<Rightarrow> input_setpoint float rest
      | Some tsp_val \<Rightarrow> Inr (tsp_val, rest))"

fun input_Kp ::
  "(string \<Rightarrow> real option) \<Rightarrow> string list \<Rightarrow> exc + real \<times> string list" where
  "input_Kp float [] = Inl EOFError"
| "input_Kp float (kp_input # rest) =
     (case float kp_input of
        None \<Rightarrow> input_Kp float rest
      | Some kp_val \<Rightarrow> Inr (kp_val, rest))"

text \<open>
  The body of the \<^verbatim>\<open>try\<close> of the Ki prompt. Unpacking \<^verbatim>\<open>num, den = map(float, ...)\<close>
  raises \<open>ValueError\<close> unless there are exactly two parts and both parse; the float
  division raises \<open>ZeroDivisionError\<close> for a zero divisor.
\<close>

definition parse_Ki :: "(string \<Rightarrow> real option) \<Rightarrow> string \<Rightarrow> exc + real" where
  "parse_Ki float ki_input =
    (if CHR ''/'' \<in> set ki_input then
       (case map float (split CHR ''/'' ki_input) of
          [Some num, Some den] \<Rightarrow>
            if den = 0 then Inl ZeroDivisionError else Inr (fdiv num den)
        | _ \<Rightarrow> Inl ValueError)
     else (case float ki_input of None \<Rightarrow> Inl ValueError | Some ki_val \<Rightarrow> Inr ki_val))"

text \<open>The Ki prompt: \<^verbatim>\<open>except ValueError\<close> prompts again, any other exception leaves the loop.\<close>

fun input_Ki ::
  "(string \<Rightarrow> real option) \<Rightarrow> string list \<Rightarrow> exc + real \<times> string list" where
  "input_Ki float [] = Inl EOFError"
| "input_Ki float (ki_input # rest) =
     (case parse_Ki float ki_input of
        Inl e \<Rightarrow> if e = ValueError then input_Ki float rest else Inl e
      | Inr ki_val \<Rightarrow> Inr (ki_val, rest))"

text \<open>The four prompts in order; the result is what is passed to \<^verbatim>\<open>run_pi_controller\<close>.\<close>

definition console ::
  "(string \<Rightarrow> real option) \<Rightarrow> string list \<Rightarrow> exc + real \<times> real \<times> real \<times> real" where
  "console float inputs =
    (case input_duration float inputs of Inl e \<Rightarrow> Inl e | Inr (duration_val, in1) \<Rightarrow>
    (case input_setpoint float in1 of Inl e \<Rightarrow> Inl e | Inr (tsp_val, in2) \<Rightarrow>
    (case input_Kp float in2 of Inl e \<Rightarrow> Inl e | Inr (kp_val, in3) \<Rightarrow>
    (case input_Ki float in3 of Inl e \<Rightarrow> Inl e | Inr (ki_val, in4) \<Rightarrow>
       Inr (duration_val, tsp_val, kp_val, ki_val)))))"

text \<open>
  An instance of the parameter \<open>float\<close> for the examples: it agrees with Python's
  \<^verbatim>\<open>float\<close> on the non-empty strings of decimal digits and rejects every other string.
\<close>

fun digits_value :: "nat \<Rightarrow> string \<Rightarrow> nat option" where
  "digits_value acc [] = Some acc"
| "digits_value acc (c # cs) =
     (if (48::nat) \<le> of_char c \<and> of_char c \<le> (57::nat)
      then digits_value (10 * acc + (of_char c - 48)) cs else None)"

definition float_of_digits :: "string \<Rightarrow> real option" where
  "float_of_digits s =
     (if s = [] then None else map_option (\<lambda>n. fl (of_nat n)) (digits_value 0 s))"

section \<open>Observations on a trace\<close>

text \<open>The heater commands of a trace, in order.\<close>

fun heater_cmds :: "call list \<Rightarrow> real list" where
  "heater_cmds [] = []"
| "heater_cmds (Q1_call q # cs) = q # heater_cmds cs"
| "heater_cmds (c # cs) = heater_cmds cs"

text \<open>A cycle that runs to its end calls \<^verbatim>\<open>time.sleep\<close> once, as its last statement.\<close>

fun is_sleep :: "call \<Rightarrow> bool" where
  "is_sleep (time_sleep d) = True"
| "is_sleep c = False"

definition cycles_completed :: "call list \<Rightarrow> nat" where
  "cycles_completed tr = length (filter is_sleep tr)"

text \<open>A sample reaches the plot with the update of the heater line.\<close>

fun is_sample :: "call \<Rightarrow> bool" where
  "is_sample (set_data l xs ys) = (l = line2)"
| "is_sample c = False"

definition samples_plotted :: "call list \<Rightarrow> nat" where
  "samples_plotted tr = length (filter is_sample tr)"

section \<open>Invariants of the trace and of the arrays\<close>

text \<open>The calls a cycle can make, and the calls the \<^verbatim>\<open>try\<close> block can make.\<close>

fun loop_call :: "call \<Rightarrow> bool" where
  "loop_call T1_read = True"
| "loop_call (Q1_call q) = (0 \<le> q \<and> q \<le> 100)"
| "loop_call (set_data l xs ys) = True"
| "loop_call plt_draw = True"
| "loop_call (plt_pause d) = (d = fl (5 / 100))"
| "loop_call (time_sleep d) = (d = fsub delta_t (fl (5 / 100)))"
| "loop_call c = False"

fun body_call :: "call \<Rightarrow> bool" where
  "body_call close_call = False"
| "body_call (print_error e) = False"
| "body_call print_ensuring = False"
| "body_call plt_ioff = False"
| "body_call plt_show = False"
| "body_call (Q1_call q) = (0 \<le> q \<and> q \<le> 100)"
| "body_call (time_sleep d) = (d = fsub delta_t (fl (5 / 100)))"
| "body_call c = True"

text \<open>All four arrays have length \<open>N\<close>; no call of cycle \<open>j\<close> raises.\<close>

definition in_range :: "nat \<Rightarrow> locals \<Rightarrow> bool" where
  "in_range N s \<longleftrightarrow> length (t s) = N \<and> length (T1 s) = N
     \<and> length (T_sp_array s) = N \<and> length (Q1 s) = N"

definition quiet :: "world \<Rightarrow> nat \<Rightarrow> bool" where
  "quiet w j \<longleftrightarrow> fails w (AtRead j) = None \<and> fails w (AtHeater j) = None
     \<and> fails w (AtSleep j) = None"

text \<open>The calls from the connection to the first cycle, when none of them raises.\<close>

definition init_calls :: "world \<Rightarrow> call list" where
  "init_calls w = [print_connecting, TCLab, print_connected, Q1_call 0, Q2_call 0,
     LED_call 100, T1_read, print_initial (temperature w AtInitT1)]"

definition connects :: "world \<Rightarrow> bool" where
  "connects w \<longleftrightarrow> fails w AtConnect = None \<and> fails w AtInitQ1 = None
     \<and> fails w AtInitQ2 = None \<and> fails w AtInitLED = None \<and> fails w AtInitT1 = None"

section \<open>Example worlds\<close>

text \<open>
  In the example worlds the sensor reads 25 degrees and a cycle spends a tenth of a
  second before its sleep, unless said otherwise. In \<open>calm\<close> nothing raises.
\<close>

definition calm :: world where
  "calm = \<lparr>fails = (\<lambda>p. None), temperature = (\<lambda>p. 25),
     processing_time = (\<lambda>i. 1 / 10)\<rparr>"

text \<open>The sensor read of cycle 1 raises.\<close>

definition sensor_lost :: world where
  "sensor_lost = \<lparr>fails = (\<lambda>p. if p = AtRead 1 then Some RuntimeError else None),
     temperature = (\<lambda>p. 25),
     processing_time = (\<lambda>i. 1 / 10)\<rparr>"

text \<open>No device answers: \<^verbatim>\<open>tclab.TCLab()\<close> raises.\<close>

definition no_device :: world where
  "no_device = \<lparr>fails = (\<lambda>p. if p = AtConnect then Some RuntimeError else None),
     temperature = (\<lambda>p. 25),
     processing_time = (\<lambda>i. 1 / 10)\<rparr>"

text \<open>The heater command of the \<^verbatim>\<open>finally\<close> block raises.\<close>

definition stuck_heater :: world where
  "stuck_heater = \<lparr>fails = (\<lambda>p. if p = AtFinalQ1 then Some RuntimeError else None),
     temperature = (\<lambda>p. 25),
     processing_time = (\<lambda>i. 1 / 10)\<rparr>"

text \<open>The device is unplugged during cycle 0: every later device call raises.\<close>

definition unplugged :: world where
  "unplugged = \<lparr>fails = (\<lambda>p. if p = AtRead 1 \<or> p = AtFinalQ1 \<or> p = AtClose
       then Some RuntimeError else None),
     temperature = (\<lambda>p. 25), processing_time = (\<lambda>i. 1 / 10)\<rparr>"

text \<open>The operator presses Ctrl-C during the sleep of cycle 0.\<close>

definition interrupted :: world where
  "interrupted = \<lparr>fails = (\<lambda>p. if p = AtSleep 0 then Some KeyboardInterrupt else None),
     temperature = (\<lambda>p. 25),
     processing_time = (\<lambda>i. 1 / 10)\<rparr>"

text \<open>
  The set point is 0.05; the sensor reads 0.0 in cycle 0 and -0.05 in cycle 1. The
  gains are Kp = 0 and Ki = 400; \<open>after_cycle_0\<close> and \<open>after_cycle_1\<close> are the local
  variables after the first and the second cycle of a run of two cycles.
\<close>

definition drifting :: world where
  "drifting = \<lparr>fails = (\<lambda>p. None),
     temperature = (\<lambda>p. if p = AtRead 1 then - fl (1 / 20) else 0),
     processing_time = (\<lambda>i. 1 / 10)\<rparr>"

definition after_cycle_0 :: locals where
  "after_cycle_0 = snd (cycle drifting (fl (1 / 20)) 0 400 0 (init_locals 2))"

definition after_cycle_1 :: locals where
  "after_cycle_1 = snd (cycle drifting (fl (1 / 20)) 0 400 1 after_cycle_0)"

text \<open>Nothing raises, and rendering takes three seconds in every cycle.\<close>

definition slow_plot :: world where
  "slow_plot = \<lparr>fails = (\<lambda>p. None), temperature = (\<lambda>p. 25),
     processing_time = (\<lambda>i. 3)\<rparr>"

section \<open>The sleep of the specification\<close>

text \<open>
  In the words of the specification: the sample period minus the processing time of the
  cycle, clamped to zero.
\<close>

definition sleep_per_spec :: "real \<Rightarrow> real \<Rightarrow> real" where
  "sleep_per_spec samplePeriod processingTime = max 0 (fsub samplePeriod processingTime)"

section \<open>The calls around the loop\<close>

text \<open>What the handler of the \<^verbatim>\<open>try\<close> block prints for the outcome of the block.\<close>

fun report :: "exc option \<Rightarrow> call list" where
  "report None = []"
| "report (Some e) = (if is_Exception e then [print_error e] else [])"

text \<open>The calls of the \<^verbatim>\<open>finally\<close> block, given whether the device was connected.\<close>

definition cleanup_calls :: "world \<Rightarrow> bool \<Rightarrow> call list" where
  "cleanup_calls w has_lab =
     print_ensuring #
     (if has_lab then Q1_call 0 # (if fails w AtFinalQ1 = None then [close_call] else [])
      else []) @ [plt_ioff, plt_show]"

section \<open>All binary64 values\<close>

text \<open>
  The arithmetic of the first section covers the finite floats whose results stay in
  range. The values of a float are the finite numbers, the two infinities and NaN. An
  operation whose rounded result reaches \<open>2 ^ 1024\<close> overflows to an infinity (numpy
  warns, and raises nothing); an infinity minus itself, and zero times an infinity, are
  NaN; NaN propagates through every operation. The two signed zeros are not told apart.
\<close>

datatype float64 = Finite real | PosInf | NegInf | NaN

definition round64 :: "real \<Rightarrow> float64" where
  "round64 x =
     (if 2 ^ 1024 \<le> \<bar>fl x\<bar> then (if 0 < x then PosInf else NegInf) else Finite (fl x))"

fun xneg :: "float64 \<Rightarrow> float64" where
  "xneg (Finite a) = Finite (- a)"
| "xneg PosInf = NegInf"
| "xneg NegInf = PosInf"
| "xneg NaN = NaN"

fun xadd :: "float64 \<Rightarrow> float64 \<Rightarrow> float64" where
  "xadd NaN y = NaN"
| "xadd x NaN = NaN"
| "xadd (Finite a) (Finite b) = round64 (a + b)"
| "xadd PosInf NegInf = NaN"
| "xadd NegInf PosInf = NaN"
| "xadd PosInf y = PosInf"
| "xadd x PosInf = PosInf"
| "xadd NegInf y = NegInf"
| "xadd x NegInf = NegInf"

definition xsub :: "float64 \<Rightarrow> float64 \<Rightarrow> float64" where
  "xsub x y = xadd x (xneg y)"

fun xmul :: "float64 \<Rightarrow> float64 \<Rightarrow> float64" where
  "xmul NaN y = NaN"
| "xmul x NaN = NaN"
| "xmul (Finite a) (Finite b) = round64 (a * b)"
| "xmul (Finite a) y = (if a = 0 then NaN else if 0 < a then y else xneg y)"
| "xmul x (Finite b) = (if b = 0 then NaN else if 0 < b then x else xneg x)"
| "xmul x y = (if x = y then PosInf else NegInf)"

text \<open>\<open>x \<le> y\<close> on floats: every comparison with NaN is false.\<close>

fun xle :: "float64 \<Rightarrow> float64 \<Rightarrow> bool" where
  "xle NaN y = False"
| "xle x NaN = False"
| "xle NegInf y = True"
| "xle x PosInf = True"
| "xle (Finite a) (Finite b) = (a \<le> b)"
| "xle x y = False"

text \<open>
  \<^verbatim>\<open>np.maximum\<close> and \<^verbatim>\<open>np.minimum\<close> return NaN when an argument is NaN, and
  \<^verbatim>\<open>np.clip(a, a_min, a_max)\<close> is \<^verbatim>\<open>minimum(a_max, maximum(a, a_min))\<close>.
\<close>

definition np_maximum :: "float64 \<Rightarrow> float64 \<Rightarrow> float64" where
  "np_maximum x y = (if x = NaN \<or> y = NaN then NaN else if xle x y then y else x)"

definition np_minimum :: "float64 \<Rightarrow> float64 \<Rightarrow> float64" where
  "np_minimum x y = (if x = NaN \<or> y = NaN then NaN else if xle x y then x else y)"

definition np_clip :: "float64 \<Rightarrow> float64 \<Rightarrow> float64 \<Rightarrow> float64" where
  "np_clip a a_min a_max = np_minimum a_max (np_maximum a a_min)"

text \<open>
  The statements of the loop body from the error to the clamp, on all float values:
  the result is the value stored in \<^verbatim>\<open>Q1[i]\<close> and passed to \<^verbatim>\<open>lab.Q1\<close>. The fourth
  argument is the integral error before the cycle, the fifth the temperature read.
\<close>

definition Q1_command ::
  "float64 \<Rightarrow> float64 \<Rightarrow> float64 \<Rightarrow> float64 \<Rightarrow> float64 \<Rightarrow> float64" where
  "Q1_command T_sp Kp Ki integral_error_before T1_i =
    (let error = xsub T_sp T1_i;
         P_term = xmul Kp error;
         integral_error_after = xadd integral_error_before (xmul error (Finite delta_t));
         I_term = xmul Ki integral_error_after;
         OP = xadd (xadd (Finite OP_bias) P_term) I_term
     in np_clip OP (Finite 0) (Finite 100))"

text \<open>A real number within the range of the finite floats.\<close>

definition in_binary64 :: "real \<Rightarrow> bool" where
  "in_binary64 x \<longleftrightarrow> \<bar>x\<bar> < 2 ^ 1024"

section \<open>Rounding\<close>

lemma rne_of_int: "rne (of_int m) = m"
  by (simp add: rne_def)

lemma quantum_ge: "- 1074 \<le> quantum x"
  by (simp add: quantum_def)

lemma quantum_le:
  assumes m: "\<bar>m\<bar> < 2 ^ 53" and e: "- 1074 \<le> e"
  shows "quantum (of_int m * 2 powi e) \<le> e"
proof -
  define x :: real where "x = of_int m * 2 powi e"
  define k where "k = nat (e + 1074)"
  define n where "n = nat \<lfloor>\<bar>x\<bar> * 2 ^ 1074\<rfloor>"
  have ek: "e = int k - 1074" using e by (simp add: k_def)
  have "\<bar>x\<bar> * 2 ^ 1074 = of_int (\<bar>m\<bar> * 2 ^ k)"
    unfolding x_def ek by (simp add: power_int_diff abs_mult)
  then have n_eq: "n = nat (\<bar>m\<bar> * 2 ^ k)"
    unfolding n_def by (metis floor_of_int)
  have "\<bar>m\<bar> * 2 ^ k < 2 ^ 53 * 2 ^ k" using m by simp
  then have "n < 2 ^ (53 + k)"
    unfolding n_eq by (simp add: nat_less_iff power_add)
  then have "floorlog 2 n \<le> 53 + k" by (intro floorlog_leI) simp_all
  moreover have "quantum x = max (int (floorlog 2 n) - 53) 0 - 1074"
    by (simp only: quantum_def n_def)
  ultimately have "quantum x \<le> e" unfolding ek by simp
  then show ?thesis unfolding x_def .
qed

lemma fl_exact:
  assumes m: "\<bar>m\<bar> < 2 ^ 53" and e: "- 1074 \<le> e"
  shows "fl (of_int m * 2 powi e) = of_int m * 2 powi e"
proof -
  define x :: real where "x = of_int m * 2 powi e"
  define q where "q = quantum x"
  have qe: "q \<le> e" unfolding q_def x_def by (rule quantum_le [OF m e])
  define d where "d = nat (e - q)"
  have eq: "e = q + int d" using qe by (simp add: d_def)
  have "x / 2 powi q = of_int (m * 2 ^ d)"
    unfolding x_def eq by (simp add: power_int_add)
  then have "rne (x / 2 powi q) = m * 2 ^ d" by (simp only: rne_of_int)
  then have "fl x = of_int (m * 2 ^ d) * 2 powi q" by (simp add: fl_def q_def)
  also have "\<dots> = x" unfolding x_def eq by (simp add: power_int_add)
  finally show ?thesis unfolding x_def .
qed

lemma fl_of_int: "\<bar>m\<bar> < 2 ^ 53 \<Longrightarrow> fl (of_int m) = of_int m"
  using fl_exact [of m 0] by simp

lemma fl_of_nat: "n < 2 ^ 53 \<Longrightarrow> fl (of_nat n) = of_nat n"
  using fl_of_int [of "int n"] by simp

lemma fl_numeral: "numeral k < (2::int) ^ 53 \<Longrightarrow> fl (numeral k) = numeral k"
  using fl_of_int [of "numeral k"] by simp

lemma fl_zero: "fl 0 = 0"
  using fl_of_int [of 0] by simp

lemma fl_one: "fl 1 = 1"
  using fl_of_int [of 1] by simp

lemma rne_nonneg: "0 \<le> x \<Longrightarrow> 0 \<le> rne x"
  by (auto simp: rne_def Let_def)

lemma fl_nonneg: "0 \<le> x \<Longrightarrow> 0 \<le> fl x"
  unfolding fl_def by (intro mult_nonneg_nonneg) (simp_all add: rne_nonneg)

lemma quantum_eq:
  assumes lo: "2 ^ 52 \<le> \<bar>x\<bar> / 2 powi q" and hi: "\<bar>x\<bar> / 2 powi q < 2 ^ 53" and q: "- 1074 \<le> q"
  shows "quantum x = q"
proof -
  define k where "k = nat (q + 1074)"
  define y where "y = \<bar>x\<bar> * 2 ^ 1074"
  have qk: "q = int k - 1074" using q by (simp add: k_def)
  have pq: "(2::real) powi q = 2 ^ k / 2 ^ 1074"
    unfolding qk by (simp add: power_int_diff)
  have yk: "\<bar>x\<bar> / 2 powi q = y / 2 ^ k"
    by (simp add: pq y_def)
  have ylo: "2 ^ (52 + k) \<le> y" using lo unfolding yk by (simp add: field_simps power_add)
  have yhi: "y < 2 ^ (53 + k)" using hi unfolding yk by (simp add: field_simps power_add)
  define n where "n = nat \<lfloor>y\<rfloor>"
  have y0: "0 \<le> y" by (simp add: y_def)
  have "(2::real) ^ (52 + k) = of_int (2 ^ (52 + k))" by simp
  then have "(2::int) ^ (52 + k) \<le> \<lfloor>y\<rfloor>" using ylo by (metis le_floor_iff)
  then have nlo: "2 ^ (52 + k) \<le> n" unfolding n_def
    by (metis nat_mono nat_numeral nat_power_eq zero_le_numeral)
  have "\<lfloor>y\<rfloor> < 2 ^ (53 + k)" using yhi by (simp add: floor_less_iff)
  then have nhi: "n < 2 ^ (53 + k)" unfolding n_def using y0
    by (simp add: nat_less_iff)
  have "floorlog 2 n \<le> 53 + k" using nhi by (intro floorlog_leI) simp_all
  moreover have "53 + k \<le> floorlog 2 n" using nlo by (intro floorlog_geI) simp_all
  ultimately have "floorlog 2 n = 53 + k" by simp
  then show ?thesis unfolding quantum_def qk using n_def y_def by simp
qed

lemma fl_eval:
  assumes "2 ^ 52 \<le> \<bar>x\<bar> / 2 powi q" and "\<bar>x\<bar> / 2 powi q < 2 ^ 53" and "- 1074 \<le> q"
  shows "fl x = of_int (rne (x / 2 powi q)) * 2 powi q"
  unfolding fl_def quantum_eq [OF assms] ..

section \<open>The calls of a run\<close>

lemma andthen_None [simp]: "andthen (None, s) f = f s"
  by (simp add: andthen_def)

lemma andthen_Some [simp]: "andthen (Some e, s) f = (Some e, s)"
  by (simp add: andthen_def)

lemma heater_cmds_append [simp]: "heater_cmds (xs @ ys) = heater_cmds xs @ heater_cmds ys"
  by (induction xs rule: heater_cmds.induct) simp_all

lemma cycles_completed_append [simp]:
  "cycles_completed (xs @ ys) = cycles_completed xs + cycles_completed ys"
  by (simp add: cycles_completed_def)

lemma samples_plotted_append [simp]:
  "samples_plotted (xs @ ys) = samples_plotted xs + samples_plotted ys"
  by (simp add: samples_plotted_def)

lemma clip_range: "0 \<le> clip x 0 100 \<and> clip x 0 100 \<le> 100"
  by (simp add: clip_def)

lemma loop_call_body_call: "loop_call c \<Longrightarrow> body_call c"
  by (cases c) simp_all

lemma cycle_calls:
  assumes "cycle w T_sp Kp Ki i s = (r, s')"
  shows "\<exists>evs. trace s' = trace s @ evs \<and> list_all loop_call evs"
  using assms clip_range
  by (auto simp: cycle_def Let_def emit_def external_def split: if_splits)

lemma cycle_lengths:
  assumes "cycle w T_sp Kp Ki i s = (r, s')"
  shows "in_range N s' = in_range N s \<and> lab s' = lab s"
  using assms
  by (auto simp: cycle_def Let_def emit_def external_def in_range_def split: if_splits)

lemma main_loop_calls:
  "main_loop w T_sp Kp Ki js s = (r, s') \<Longrightarrow>
     \<exists>evs. trace s' = trace s @ evs \<and> list_all loop_call evs"
proof (induction js arbitrary: s)
  case Nil
  then show ?case by simp
next
  case (Cons j js)
  obtain r1 s1 where c: "cycle w T_sp Kp Ki j s = (r1, s1)" by fastforce
  from cycle_calls [OF c] obtain e1 where e1: "trace s1 = trace s @ e1" "list_all loop_call e1"
    by blast
  show ?case
  proof (cases r1)
    case None
    with Cons.prems c have "main_loop w T_sp Kp Ki js s1 = (r, s')" by simp
    from Cons.IH [OF this] obtain e2 where "trace s' = trace s1 @ e2" "list_all loop_call e2"
      by blast
    with e1 have "trace s' = trace s @ (e1 @ e2) \<and> list_all loop_call (e1 @ e2)" by simp
    then show ?thesis by blast
  next
    case (Some e)
    with Cons.prems c have "s' = s1" by simp
    with e1 show ?thesis by blast
  qed
qed

lemma main_loop_lengths:
  "main_loop w T_sp Kp Ki js s = (r, s') \<Longrightarrow> in_range N s' = in_range N s \<and> lab s' = lab s"
proof (induction js arbitrary: s)
  case Nil
  then show ?case by simp
next
  case (Cons j js)
  obtain r1 s1 where c: "cycle w T_sp Kp Ki j s = (r1, s1)" by fastforce
  note l1 = cycle_lengths [OF c, of N]
  show ?case
  proof (cases r1)
    case None
    with Cons.prems c have "main_loop w T_sp Kp Ki js s1 = (r, s')" by simp
    from Cons.IH [OF this] l1 show ?thesis by simp
  next
    case (Some e)
    with Cons.prems c have "s' = s1" by simp
    with l1 show ?thesis by simp
  qed
qed

lemma try_body_calls:
  assumes "try_body w T_sp Kp Ki n s = (r, s')"
  shows "\<exists>evs. trace s' = trace s @ evs \<and> list_all body_call evs
           \<and> (lab s' \<longleftrightarrow> lab s \<or> fails w AtConnect = None)"
proof (cases "fails w AtConnect = None \<and> fails w AtInitQ1 = None \<and> fails w AtInitQ2 = None
    \<and> fails w AtInitLED = None \<and> fails w AtInitT1 = None")
  case False
  with assms show ?thesis
    by (auto simp: try_body_def external_def emit_def andthen_def split: option.splits)
next
  case True
  define s5 where "s5 = s\<lparr>lab := True, trace := trace s @ [print_connecting, TCLab, print_connected,
     Q1_call 0, Q2_call 0, LED_call 100, T1_read, print_initial (temperature w AtInitT1)]\<rparr>"
  obtain r1 s6 where m: "main_loop w T_sp Kp Ki [0..<n] s5 = (r1, s6)" by fastforce
  from main_loop_calls [OF m] obtain e1 where e1: "trace s6 = trace s5 @ e1" "list_all loop_call e1"
    by blast
  from main_loop_lengths [OF m] have l6: "lab s6" by (simp add: s5_def)
  have tb: "try_body w T_sp Kp Ki n s
      = andthen (r1, s6) (\<lambda>s6. (None, emit print_complete s6))"
    using True m by (simp add: try_body_def external_def emit_def s5_def)
  have b1: "list_all body_call e1"
    using e1(2) by (simp add: list_all_iff loop_call_body_call)
  show ?thesis
  proof (cases r1)
    case None
    with tb assms have "s' = emit print_complete s6" by simp
    with e1 b1 l6 True show ?thesis by (simp add: emit_def s5_def)
  next
    case (Some e)
    with tb assms have "s' = s6" by simp
    with e1 b1 l6 True show ?thesis by (simp add: s5_def)
  qed
qed

lemma cleanup_trace: "trace (cleanup w s) = trace s @ cleanup_calls w (lab s)"
  by (simp add: cleanup_def cleanup_calls_def Let_def emit_def external_def andthen_def
      split: option.splits)

lemma init_locals_simps [simp]:
  "trace (init_locals n) = []" "lab (init_locals n) = False" "integral_error (init_locals n) = 0"
  "t (init_locals n) = replicate n 0" "T1 (init_locals n) = replicate n 0"
  "T_sp_array (init_locals n) = replicate n 0" "Q1 (init_locals n) = replicate n 0"
  by (simp_all add: init_locals_def)

lemma run_negative:
  "py_int (fdiv duration delta_t) < 0 \<Longrightarrow>
     run_pi_controller w duration T_sp Kp Ki = (Some ValueError, init_locals 0)"
  by (simp add: run_pi_controller_def)

lemma run_unfold:
  assumes n: "0 \<le> py_int (fdiv duration delta_t)"
    and b: "try_body w T_sp Kp Ki (nat (py_int (fdiv duration delta_t)))
              (init_locals (nat (py_int (fdiv duration delta_t)))) = (r, s)"
  shows "fst (run_pi_controller w duration T_sp Kp Ki)
           = (case r of None \<Rightarrow> None | Some e \<Rightarrow> if is_Exception e then None else Some e)"
    and "trace (snd (run_pi_controller w duration T_sp Kp Ki))
           = trace s @ report r @ cleanup_calls w (lab s)"
  using n b
  by (auto simp: run_pi_controller_def Let_def cleanup_trace emit_def split: option.splits)

lemma run_trace:
  "\<exists>body. list_all body_call body \<and>
     (trace (snd (run_pi_controller w duration T_sp Kp Ki)) = [] \<or>
      (\<exists>r. trace (snd (run_pi_controller w duration T_sp Kp Ki))
        = body @ report r @ cleanup_calls w (fails w AtConnect = None)))"
proof (cases "0 \<le> py_int (fdiv duration delta_t)")
  case False
  then show ?thesis by (intro exI [of _ "[]"]) (simp add: run_negative)
next
  case True
  obtain r s where b: "try_body w T_sp Kp Ki (nat (py_int (fdiv duration delta_t)))
              (init_locals (nat (py_int (fdiv duration delta_t)))) = (r, s)" by fastforce
  from try_body_calls [OF b] obtain evs where "trace s = evs" "list_all body_call evs"
    "lab s \<longleftrightarrow> fails w AtConnect = None" by auto
  with run_unfold(2) [OF True b] show ?thesis by auto
qed

lemma report_calls:
  "Q1_call q \<notin> set (report r)" "time_sleep d \<notin> set (report r)" "close_call \<notin> set (report r)"
  by (cases r; simp)+

lemma cleanup_calls_Q1: "Q1_call q \<in> set (cleanup_calls w c) \<Longrightarrow> q = 0"
  by (auto simp: cleanup_calls_def split: if_splits)

lemma cleanup_calls_sleep: "time_sleep d \<notin> set (cleanup_calls w c)"
  by (auto simp: cleanup_calls_def split: if_splits)

lemma cleanup_calls_close:
  "close_call \<in> set (cleanup_calls w c) \<longleftrightarrow> c \<and> fails w AtFinalQ1 = None"
  by (auto simp: cleanup_calls_def split: if_splits)

lemma run_Q1_range:
  assumes "Q1_call q \<in> set (trace (snd (run_pi_controller w duration T_sp Kp Ki)))"
  shows "0 \<le> q \<and> q \<le> 100"
proof -
  from run_trace [of w duration T_sp Kp Ki] assms
  obtain body r where b: "list_all body_call body"
    and tr: "trace (snd (run_pi_controller w duration T_sp Kp Ki))
        = body @ report r @ cleanup_calls w (fails w AtConnect = None)"
    by auto
  from assms tr report_calls(1) [of q r]
  consider "Q1_call q \<in> set body" | "Q1_call q \<in> set (cleanup_calls w (fails w AtConnect = None))"
    by auto
  then show ?thesis
  proof cases
    case 1
    with b have "body_call (Q1_call q)" unfolding list_all_iff by blast
    then show ?thesis by simp
  next
    case 2
    then show ?thesis using cleanup_calls_Q1 by fastforce
  qed
qed

lemma cycle_Q1_call:
  assumes "cycle w T_sp Kp Ki i s = (r, s')"
    and "Q1_call q \<in> set (drop (length (trace s)) (trace s'))"
  shows "q = clip (fadd (fadd OP_bias (fmul Kp (fsub T_sp (temperature w (AtRead i)))))
                    (fmul Ki (fadd (integral_error s)
                       (fmul (fsub T_sp (temperature w (AtRead i))) delta_t)))) 0 100
         \<and> Q1 s' ! i = q"
  using assms
  by (auto simp: cycle_def Let_def emit_def external_def split: if_splits)

lemma run_sleep_arg:
  assumes "time_sleep d \<in> set (trace (snd (run_pi_controller w duration T_sp Kp Ki)))"
  shows "d = fsub delta_t (fl (5 / 100))"
proof -
  from run_trace [of w duration T_sp Kp Ki] assms
  obtain body r where b: "list_all body_call body"
    and tr: "trace (snd (run_pi_controller w duration T_sp Kp Ki))
        = body @ report r @ cleanup_calls w (fails w AtConnect = None)"
    by auto
  from assms tr report_calls(2) [of d r] cleanup_calls_sleep [of d w]
  have "time_sleep d \<in> set body" by auto
  with b have "body_call (time_sleep d)" unfolding list_all_iff by blast
  then show ?thesis by simp
qed

lemma run_close_call:
  assumes "close_call \<in> set (trace (snd (run_pi_controller w duration T_sp Kp Ki)))"
  shows "fails w AtConnect = None \<and> fails w AtFinalQ1 = None"
proof -
  from run_trace [of w duration T_sp Kp Ki] assms
  obtain body r where b: "list_all body_call body"
    and tr: "trace (snd (run_pi_controller w duration T_sp Kp Ki))
        = body @ report r @ cleanup_calls w (fails w AtConnect = None)"
    by auto
  have "close_call \<notin> set body"
    using b by (auto simp: list_all_iff)
  with assms tr report_calls(3) [of r]
  have "close_call \<in> set (cleanup_calls w (fails w AtConnect = None))" by auto
  then show ?thesis by (simp add: cleanup_calls_close)
qed

lemma sleep_arg_value: "fsub delta_t (fl (5 / 100)) = 8782019273372467 / 2 ^ 52"
proof -
  have a: "fl (5 / 100) = 7205759403792794 / 2 ^ 57"
    by (subst fl_eval [where q = "- 57"]) (simp_all add: rne_def power_int_minus)
  show ?thesis
    unfolding fsub_def delta_t_def a
    by (subst fl_eval [where q = "- 52"]) (simp_all add: rne_def power_int_minus)
qed

section \<open>Cycles in which nothing raises\<close>

lemma cycle_ok:
  assumes "in_range N s" "i < N" "quiet w i"
  shows "fst (cycle w T_sp Kp Ki i s) = None"
    and "in_range N (snd (cycle w T_sp Kp Ki i s))"
    and "t (snd (cycle w T_sp Kp Ki i s)) = (t s)[i := fmul (fl (of_nat i)) delta_t]"
    and "T1 (snd (cycle w T_sp Kp Ki i s)) = (T1 s)[i := temperature w (AtRead i)]"
    and "T_sp_array (snd (cycle w T_sp Kp Ki i s)) = (T_sp_array s)[i := T_sp]"
    and "Q1 (snd (cycle w T_sp Kp Ki i s)) = (Q1 s)[i := Q1 (snd (cycle w T_sp Kp Ki i s)) ! i]"
    and "heater_cmds (trace (snd (cycle w T_sp Kp Ki i s)))
           = heater_cmds (trace s) @ [Q1 (snd (cycle w T_sp Kp Ki i s)) ! i]"
    and "cycles_completed (trace (snd (cycle w T_sp Kp Ki i s))) = cycles_completed (trace s) + 1"
    and "samples_plotted (trace (snd (cycle w T_sp Kp Ki i s))) = samples_plotted (trace s) + 1"
  using assms
  by (simp_all add: cycle_def Let_def emit_def external_def in_range_def quiet_def
      cycles_completed_def samples_plotted_def)

lemma main_loop_Cons_ok:
  "fst (cycle w T_sp Kp Ki j s) = None \<Longrightarrow>
     main_loop w T_sp Kp Ki (j # js) s = main_loop w T_sp Kp Ki js (snd (cycle w T_sp Kp Ki j s))"
  by (cases "cycle w T_sp Kp Ki j s") simp

lemma main_loop_ok:
  assumes "in_range N s" "\<forall>j\<in>set js. j < N \<and> quiet w j" "distinct js"
  shows "fst (main_loop w T_sp Kp Ki js s) = None
    \<and> in_range N (snd (main_loop w T_sp Kp Ki js s))
    \<and> (\<forall>j\<in>set js. t (snd (main_loop w T_sp Kp Ki js s)) ! j = fmul (fl (of_nat j)) delta_t
          \<and> T1 (snd (main_loop w T_sp Kp Ki js s)) ! j = temperature w (AtRead j)
          \<and> T_sp_array (snd (main_loop w T_sp Kp Ki js s)) ! j = T_sp)
    \<and> (\<forall>k. k \<notin> set js \<longrightarrow> t (snd (main_loop w T_sp Kp Ki js s)) ! k = t s ! k
          \<and> T1 (snd (main_loop w T_sp Kp Ki js s)) ! k = T1 s ! k
          \<and> T_sp_array (snd (main_loop w T_sp Kp Ki js s)) ! k = T_sp_array s ! k
          \<and> Q1 (snd (main_loop w T_sp Kp Ki js s)) ! k = Q1 s ! k)
    \<and> heater_cmds (trace (snd (main_loop w T_sp Kp Ki js s)))
         = heater_cmds (trace s) @ map (\<lambda>j. Q1 (snd (main_loop w T_sp Kp Ki js s)) ! j) js
    \<and> cycles_completed (trace (snd (main_loop w T_sp Kp Ki js s)))
         = cycles_completed (trace s) + length js
    \<and> samples_plotted (trace (snd (main_loop w T_sp Kp Ki js s)))
         = samples_plotted (trace s) + length js"
  using assms
proof (induction js arbitrary: s)
  case Nil
  then show ?case by simp
next
  case (Cons j js)
  define s1 where "s1 = snd (cycle w T_sp Kp Ki j s)"
  have j: "j < N" "quiet w j" "j \<notin> set js" using Cons.prems by auto
  note c = cycle_ok [OF Cons.prems(1) j(1) j(2), of T_sp Kp Ki, folded s1_def]
  have ml: "main_loop w T_sp Kp Ki (j # js) s = main_loop w T_sp Kp Ki js s1"
    unfolding s1_def by (rule main_loop_Cons_ok) (rule c(1))
  define s' where "s' = snd (main_loop w T_sp Kp Ki js s1)"
  have "\<forall>j\<in>set js. j < N \<and> quiet w j" "distinct js" using Cons.prems by auto
  note ih = Cons.IH [OF c(2) this, folded s'_def]
  have len: "length (t s) = N" "length (T1 s) = N" "length (T_sp_array s) = N" "length (Q1 s) = N"
    using Cons.prems(1) by (simp_all add: in_range_def)
  have at_j: "t s' ! j = t s1 ! j" "T1 s' ! j = T1 s1 ! j" "T_sp_array s' ! j = T_sp_array s1 ! j"
    "Q1 s' ! j = Q1 s1 ! j"
    using ih j(3) by simp_all
  have other: "k \<noteq> j \<Longrightarrow> t s1 ! k = t s ! k \<and> T1 s1 ! k = T1 s ! k
      \<and> T_sp_array s1 ! k = T_sp_array s ! k \<and> Q1 s1 ! k = Q1 s ! k" for k
    by (metis c(3) c(4) c(5) c(6) nth_list_update_neq)
  have here: "t s1 ! j = fmul (fl (of_nat j)) delta_t" "T1 s1 ! j = temperature w (AtRead j)"
    "T_sp_array s1 ! j = T_sp"
    using c(3) c(4) c(5) len j(1) by simp_all
  have hc: "heater_cmds (trace s') = heater_cmds (trace s) @ map (\<lambda>j. Q1 s' ! j) (j # js)"
    using ih c(7) at_j(4) by simp
  show ?case
    unfolding ml s'_def [symmetric]
    using ih at_j other here hc c(8) c(9) by auto
qed

lemma cycle_ok_control:
  fixes w :: world and T_sp Kp Ki :: real and i :: nat
  assumes "in_range N s" "i < N" "quiet w i"
  defines "err \<equiv> fsub T_sp (temperature w (AtRead i))"
  defines "cand \<equiv> fadd (integral_error s) (fmul err delta_t)"
  defines "q \<equiv> clip (fadd (fadd OP_bias (fmul Kp err)) (fmul Ki cand)) 0 100"
  shows "Q1 (snd (cycle w T_sp Kp Ki i s)) ! i = q"
    and "integral_error (snd (cycle w T_sp Kp Ki i s))
           = (if 0 < q \<and> q < 100 then cand else fsub cand (fmul err delta_t))"
  using assms(1-3) unfolding err_def cand_def q_def
  by (simp_all add: cycle_def Let_def emit_def external_def in_range_def quiet_def)

lemma main_loop_append:
  "main_loop w T_sp Kp Ki (xs @ ys) s
     = andthen (main_loop w T_sp Kp Ki xs s) (main_loop w T_sp Kp Ki ys)"
proof (induction xs arbitrary: s)
  case Nil
  then show ?case by simp
next
  case (Cons x xs)
  obtain r1 s1 where c: "cycle w T_sp Kp Ki x s = (r1, s1)" by fastforce
  show ?case using Cons.IH [of s1] c by (cases r1) simp_all
qed

lemma try_body_connected:
  assumes "connects w"
  shows "try_body w T_sp Kp Ki n s
     = andthen (main_loop w T_sp Kp Ki [0..<n] (s\<lparr>lab := True, trace := trace s @ init_calls w\<rparr>))
         (\<lambda>s6. (None, emit print_complete s6))"
  using assms by (simp add: try_body_def external_def emit_def connects_def init_calls_def)

lemma cycle_read_fails:
  assumes "in_range N s" "i < N" "fails w (AtRead i) = Some e"
  shows "cycle w T_sp Kp Ki i s
     = (Some e, s\<lparr>t := (t s)[i := fmul (fl (of_nat i)) delta_t], trace := trace s @ [T1_read]\<rparr>)"
  using assms by (simp add: cycle_def Let_def emit_def in_range_def)

lemma cleanup_fields [simp]:
  "t (cleanup w s) = t s" "T1 (cleanup w s) = T1 s" "T_sp_array (cleanup w s) = T_sp_array s"
  "Q1 (cleanup w s) = Q1 s" "integral_error (cleanup w s) = integral_error s"
  by (simp_all add: cleanup_def Let_def emit_def external_def andthen_def split: option.splits)

lemma run_fields:
  assumes n: "0 \<le> py_int (fdiv duration delta_t)"
    and b: "try_body w T_sp Kp Ki (nat (py_int (fdiv duration delta_t)))
              (init_locals (nat (py_int (fdiv duration delta_t)))) = (r, s)"
  shows "t (snd (run_pi_controller w duration T_sp Kp Ki)) = t s"
    and "T1 (snd (run_pi_controller w duration T_sp Kp Ki)) = T1 s"
    and "T_sp_array (snd (run_pi_controller w duration T_sp Kp Ki)) = T_sp_array s"
    and "Q1 (snd (run_pi_controller w duration T_sp Kp Ki)) = Q1 s"
    and "integral_error (snd (run_pi_controller w duration T_sp Kp Ki)) = integral_error s"
  using n b
  by (auto simp: run_pi_controller_def Let_def emit_def split: option.splits)

lemma observe_init_calls [simp]:
  "heater_cmds (init_calls w) = [0]" "cycles_completed (init_calls w) = 0"
  "samples_plotted (init_calls w) = 0"
  by (simp_all add: init_calls_def cycles_completed_def samples_plotted_def)

lemma observe_report [simp]:
  "heater_cmds (report r) = []" "cycles_completed (report r) = 0" "samples_plotted (report r) = 0"
  by (cases r; simp add: cycles_completed_def samples_plotted_def)+

lemma observe_cleanup_calls [simp]:
  "heater_cmds (cleanup_calls w c) = (if c then [0] else [])"
  "cycles_completed (cleanup_calls w c) = 0" "samples_plotted (cleanup_calls w c) = 0"
  by (simp_all add: cleanup_calls_def cycles_completed_def samples_plotted_def)

lemma in_range_init: "in_range n (init_locals n\<lparr>lab := True, trace := tr\<rparr>)"
  by (simp add: in_range_def)

lemma py_int_nonneg: "0 \<le> x \<Longrightarrow> py_int x = \<lfloor>x\<rfloor>"
  by (simp add: py_int_def)

lemma fdiv_delta_t_nonneg: "0 < duration \<Longrightarrow> 0 \<le> fdiv duration delta_t"
  by (simp add: fdiv_def delta_t_def fl_nonneg)

lemma timestamp_exact:
  assumes "i < 2 ^ 52"
  shows "fmul (fl (of_nat i)) delta_t = of_nat i * delta_t"
proof -
  have "fl (of_nat i) = of_nat i" using assms by (intro fl_of_nat) simp
  moreover have "fl (of_nat (2 * i)) = of_nat (2 * i)" using assms by (intro fl_of_nat) simp
  ultimately show ?thesis by (simp add: fmul_def delta_t_def mult.commute)
qed

text \<open>The first \<open>i\<close> cycles of a run in which nothing raises before cycle \<open>i\<close>.\<close>

lemma prefix_ok:
  fixes w :: world and T_sp Kp Ki :: real and i n :: nat
  assumes "i \<le> n" "\<forall>j<i. quiet w j"
  defines "s0 \<equiv> init_locals n\<lparr>lab := True, trace := init_calls w\<rparr>"
  defines "si \<equiv> snd (main_loop w T_sp Kp Ki [0..<i] s0)"
  shows "main_loop w T_sp Kp Ki [0..<i] s0 = (None, si)"
    and "in_range n si"
    and "lab si"
    and "\<forall>j<i. t si ! j = fmul (fl (of_nat j)) delta_t \<and> T1 si ! j = temperature w (AtRead j)
           \<and> T_sp_array si ! j = T_sp"
    and "\<forall>k. i \<le> k \<and> k < n \<longrightarrow> t si ! k = 0 \<and> T1 si ! k = 0 \<and> T_sp_array si ! k = 0 \<and> Q1 si ! k = 0"
    and "heater_cmds (trace si) = 0 # map (\<lambda>j. Q1 si ! j) [0..<i]"
    and "cycles_completed (trace si) = i"
    and "samples_plotted (trace si) = i"
proof -
  have r: "in_range n s0" unfolding s0_def by (rule in_range_init)
  have q: "\<forall>j\<in>set [0..<i]. j < n \<and> quiet w j" using assms(1,2) by simp
  note ok = main_loop_ok [OF r q distinct_upt, of T_sp Kp Ki, folded si_def]
  show "main_loop w T_sp Kp Ki [0..<i] s0 = (None, si)"
    using ok unfolding si_def by (simp add: prod_eq_iff)
  show "in_range n si" using ok by simp
  show "lab si"
    using main_loop_lengths [of w T_sp Kp Ki "[0..<i]" s0 None si n]
      \<open>main_loop w T_sp Kp Ki [0..<i] s0 = (None, si)\<close> by (simp add: s0_def)
  show "\<forall>j<i. t si ! j = fmul (fl (of_nat j)) delta_t \<and> T1 si ! j = temperature w (AtRead j)
           \<and> T_sp_array si ! j = T_sp"
    using ok by simp
  show "\<forall>k. i \<le> k \<and> k < n \<longrightarrow> t si ! k = 0 \<and> T1 si ! k = 0 \<and> T_sp_array si ! k = 0 \<and> Q1 si ! k = 0"
    using ok by (simp add: s0_def)
  show "heater_cmds (trace si) = 0 # map (\<lambda>j. Q1 si ! j) [0..<i]"
    using ok by (simp add: s0_def)
  show "cycles_completed (trace si) = i" using ok by (simp add: s0_def)
  show "samples_plotted (trace si) = i" using ok by (simp add: s0_def)
qed

lemma try_body_no_connection:
  "fails w AtConnect = Some e \<Longrightarrow>
     try_body w T_sp Kp Ki n s = (Some e, s\<lparr>trace := trace s @ [print_connecting, TCLab]\<rparr>)"
  by (simp add: try_body_def external_def emit_def)

lemma cycle_cleanup_indep:
  assumes "temperature w' = temperature w"
    and "\<forall>p. p \<noteq> AtFinalQ1 \<and> p \<noteq> AtClose \<longrightarrow> fails w' p = fails w p"
  shows "cycle w' T_sp Kp Ki i s = cycle w T_sp Kp Ki i s"
  using assms by (simp add: cycle_def external_def Let_def)

lemma main_loop_cleanup_indep:
  assumes "temperature w' = temperature w"
    and "\<forall>p. p \<noteq> AtFinalQ1 \<and> p \<noteq> AtClose \<longrightarrow> fails w' p = fails w p"
  shows "main_loop w' T_sp Kp Ki js s = main_loop w T_sp Kp Ki js s"
proof (induction js arbitrary: s)
  case Nil
  show ?case by simp
next
  case (Cons j js)
  have "main_loop w' T_sp Kp Ki js = main_loop w T_sp Kp Ki js"
    by (rule ext) (rule Cons.IH)
  then show ?case by (simp add: cycle_cleanup_indep [OF assms])
qed

lemma try_body_cleanup_indep:
  assumes "temperature w' = temperature w"
    and "\<forall>p. p \<noteq> AtFinalQ1 \<and> p \<noteq> AtClose \<longrightarrow> fails w' p = fails w p"
  shows "try_body w' T_sp Kp Ki n s = try_body w T_sp Kp Ki n s"
proof -
  have "main_loop w' T_sp Kp Ki [0..<n] = main_loop w T_sp Kp Ki [0..<n]"
    by (rule ext) (rule main_loop_cleanup_indep [OF assms])
  then show ?thesis using assms by (simp add: try_body_def external_def)
qed

section \<open>Evaluation of examples\<close>

lemmas run_defs = run_pi_controller_def try_body_def cycle_def cleanup_def init_locals_def
  external_def emit_def andthen_def Let_def delta_t_def OP_bias_def calm_def

lemmas float_defs = fadd_def fsub_def fmul_def fdiv_def clip_def py_int_def
  fl_numeral fl_zero fl_one

lemma sleep_arg_eval: "fl (2 - fl (1 / 20)) = 8782019273372467 / 2 ^ 52"
  using sleep_arg_value by (simp add: fsub_def delta_t_def)

lemma fl_minus_one: "fl (- 1) = - 1"
  using fl_of_int [of "- 1"] by simp

lemma fl_half: "fl (1 / 2) = 1 / 2"
  by (subst fl_eval [where q = "- 53"]) (simp_all add: rne_def power_int_minus)

lemma suffix_drop: "tr = pre @ xs \<Longrightarrow> length xs = n \<Longrightarrow> drop (length tr - n) tr = xs"
  by auto

section \<open>The heater command\<close>

text \<open>
  On the finite floats, as long as no operation overflows: every heater command of a
  run lies between 0 and 100, and the command of cycle \<open>i\<close> is the value stored in
  \<open>Q1[i]\<close>, the clamp of \<open>OP_bias + Kp * error + Ki * (integral_error + error * delta_t)\<close>.
\<close>
lemma heater_output_clamped_finite:
  "(Q1_call q \<in> set (trace (snd (run_pi_controller w duration T_sp Kp Ki)))
      \<longrightarrow> 0 \<le> q \<and> q \<le> 100)
   \<and> (cycle w T_sp Kp Ki i s = (r, s') \<and> Q1_call q' \<in> set (drop (length (trace s)) (trace s'))
      \<longrightarrow> (let error = fsub T_sp (temperature w (AtRead i)) in
            q' = clip (fadd (fadd OP_bias (fmul Kp error))
                            (fmul Ki (fadd (integral_error s) (fmul error delta_t)))) 0 100)
          \<and> Q1 s' ! i = q' \<and> 0 \<le> q' \<and> q' \<le> 100)"
  using run_Q1_range [of q w duration T_sp Kp Ki] cycle_Q1_call [of w T_sp Kp Ki i s r s' q']
    clip_range
  by (auto simp: Let_def)

lemma round64_in_range: "in_binary64 (fl x) \<Longrightarrow> round64 x = Finite (fl x)"
  by (simp add: round64_def in_binary64_def)

lemma np_clip_NaN: "np_clip NaN a_min a_max = NaN"
  by (simp add: np_clip_def np_maximum_def np_minimum_def)

lemma np_clip_Finite:
  "np_clip (Finite x) (Finite 0) (Finite 100) = Finite (clip x 0 100)"
  by (auto simp: np_clip_def np_maximum_def np_minimum_def clip_def min_def max_def)

lemma np_clip_range:
  "a \<noteq> NaN \<Longrightarrow> \<exists>q. np_clip a (Finite 0) (Finite 100) = Finite q \<and> 0 \<le> q \<and> q \<le> 100"
  by (cases a) (auto simp: np_clip_def np_maximum_def np_minimum_def)

text \<open>
  On all float values the command is between 0 and 100 unless it is NaN, which happens
  exactly when the raw output is NaN.
\<close>
lemma Q1_command_range:
  "Q1_command T_sp Kp Ki ie temp = NaN
   \<or> (\<exists>q. Q1_command T_sp Kp Ki ie temp = Finite q \<and> 0 \<le> q \<and> q \<le> 100)"
  unfolding Q1_command_def Let_def
  using np_clip_range np_clip_NaN by metis

lemma np_clip_NaN_iff: "np_clip a (Finite 0) (Finite 100) = NaN \<longleftrightarrow> a = NaN"
  using np_clip_range [of a] np_clip_NaN by (cases "a = NaN") auto

lemma Q1_command_finite:
  fixes T_sp Kp Ki ie temp :: real
  defines "err \<equiv> fsub T_sp temp"
  defines "cand \<equiv> fadd ie (fmul err delta_t)"
  assumes "in_binary64 err" "in_binary64 (fmul Kp err)" "in_binary64 (fmul err delta_t)"
    "in_binary64 cand" "in_binary64 (fmul Ki cand)" "in_binary64 (fadd OP_bias (fmul Kp err))"
    "in_binary64 (fadd (fadd OP_bias (fmul Kp err)) (fmul Ki cand))"
  shows "Q1_command (Finite T_sp) (Finite Kp) (Finite Ki) (Finite ie) (Finite temp)
     = Finite (clip (fadd (fadd OP_bias (fmul Kp err)) (fmul Ki cand)) 0 100)"
  using assms(3-)
  unfolding Q1_command_def Let_def err_def cand_def xsub_def
  by (simp add: round64_in_range np_clip_Finite fadd_def fsub_def fmul_def)

text \<open>
  Where every intermediate result of a cycle stays in the range of the finite floats,
  \<open>Q1_command\<close> is the heater command that \<open>cycle\<close> issues.
\<close>
lemma Q1_command_agrees_with_cycle:
  fixes w :: world and T_sp Kp Ki :: real and i :: nat and s :: locals
  defines "err \<equiv> fsub T_sp (temperature w (AtRead i))"
  defines "cand \<equiv> fadd (integral_error s) (fmul err delta_t)"
  assumes "cycle w T_sp Kp Ki i s = (r, s')"
    and "Q1_call q \<in> set (drop (length (trace s)) (trace s'))"
    and "in_binary64 err" "in_binary64 (fmul Kp err)" "in_binary64 (fmul err delta_t)"
    "in_binary64 cand" "in_binary64 (fmul Ki cand)" "in_binary64 (fadd OP_bias (fmul Kp err))"
    "in_binary64 (fadd (fadd OP_bias (fmul Kp err)) (fmul Ki cand))"
  shows "Q1_command (Finite T_sp) (Finite Kp) (Finite Ki) (Finite (integral_error s))
           (Finite (temperature w (AtRead i))) = Finite q"
  using cycle_Q1_call [OF assms(3,4)]
    Q1_command_finite [OF assms(5-11) [unfolded err_def cand_def]]
  by (simp add: err_def cand_def)

lemma round64_overflow:
  "round64 (2 ^ 1023 * 10) = PosInf" "round64 (- (2 ^ 1023) * 20) = NegInf"
proof -
  have a: "fl (of_int 5 * 2 powi 1024) = of_int 5 * 2 powi 1024"
    by (rule fl_exact) simp_all
  have b: "fl (of_int (- 5) * 2 powi 1025) = of_int (- 5) * 2 powi 1025"
    by (rule fl_exact) simp_all
  have a': "(2::real) ^ 1023 * 10 = of_int 5 * 2 powi 1024" by simp
  have b': "- ((2::real) ^ 1023) * 20 = of_int (- 5) * 2 powi 1025" by simp
  show "round64 (2 ^ 1023 * 10) = PosInf"
    unfolding round64_def a' a by simp
  show "round64 (- (2 ^ 1023) * 20) = NegInf"
    unfolding round64_def b' b by simp
qed

lemma round64_numeral: "numeral k < (2::int) ^ 53 \<Longrightarrow> round64 (numeral k) = Finite (numeral k)"
proof -
  assume k: "numeral k < (2::int) ^ 53"
  have f: "fl (numeral k) = numeral k" by (rule fl_numeral [OF k])
  have "(numeral k :: real) < 2 ^ 53"
    using k by (metis of_int_less_numeral_power_cancel_iff of_int_numeral)
  moreover have "(2::real) ^ 53 < 2 ^ 1024"
    by (rule power_strict_increasing) simp_all
  ultimately have "(numeral k :: real) < 2 ^ 1024" by (rule less_trans)
  moreover have "\<bar>numeral k :: real\<bar> = numeral k" by (rule abs_numeral)
  ultimately have "in_binary64 (fl (numeral k))" unfolding f in_binary64_def by (simp only:)
  from round64_in_range [OF this] show ?thesis unfolding f .
qed

lemma round64_zero: "round64 0 = Finite 0"
  by (simp add: round64_def fl_zero)

section \<open>The claims\<close>

text \<open>
  Claim C1. The clamp does not bring every raw output into the interval from 0 to 100:
  \<^verbatim>\<open>np.clip\<close> returns NaN for NaN, and that value is stored in \<open>Q1[i]\<close> and passed to
  \<^verbatim>\<open>lab.Q1\<close>. With the gain Kp = NaN (the console accepts the input \<open>nan\<close>) the raw
  output is NaN. With the finite gains Kp = \<open>2 ^ 1023\<close> and Ki = \<open>- 2 ^ 1023\<close>, set point
  30 and reading 20, the proportional term overflows to plus infinity and the integral
  term to minus infinity, and their sum is NaN. A finite raw output is clamped: with
  Kp = 50 and the same error it is 500, and the command is 100.
\<close>
theorem clip_passes_nan:
  "Q1_command (Finite 30) NaN (Finite 0) (Finite 0) (Finite 25) = NaN
   \<and> Q1_command (Finite 30) (Finite (2 ^ 1023)) (Finite (- (2 ^ 1023))) (Finite 0) (Finite 20) = NaN
   \<and> Q1_command (Finite 30) (Finite 50) (Finite 0) (Finite 0) (Finite 20) = Finite 100"
proof -
  have 1: "Q1_command (Finite 30) NaN (Finite 0) (Finite 0) (Finite 25) = NaN"
    by (simp add: Q1_command_def Let_def xsub_def round64_numeral round64_zero np_clip_NaN
        delta_t_def OP_bias_def)
  have e: "xsub (Finite 30) (Finite 20) = Finite 10"
    by (simp add: xsub_def round64_numeral)
  have p: "xmul (Finite (2 ^ 1023)) (Finite 10) = PosInf"
    by (simp only: xmul.simps round64_overflow)
  have b: "xmul (Finite 10) (Finite delta_t) = Finite 20"
    by (simp add: delta_t_def round64_numeral)
  have c: "xadd (Finite 0) (Finite 20) = Finite 20"
    by (simp add: round64_numeral)
  have i: "xmul (Finite (- (2 ^ 1023))) (Finite 20) = NegInf"
    by (simp only: xmul.simps round64_overflow)
  have o: "xadd (xadd (Finite OP_bias) PosInf) NegInf = NaN"
    by (simp add: OP_bias_def)
  have 2: "Q1_command (Finite 30) (Finite (2 ^ 1023)) (Finite (- (2 ^ 1023))) (Finite 0) (Finite 20)
      = NaN"
    unfolding Q1_command_def Let_def
    by (simp only: e p b c i o np_clip_NaN)
  have 3: "Q1_command (Finite 30) (Finite 50) (Finite 0) (Finite 0) (Finite 20) = Finite 100"
    by (simp add: Q1_command_def Let_def xsub_def round64_numeral round64_zero np_clip_Finite
        clip_def delta_t_def OP_bias_def)
  from 1 2 3 show ?thesis by blast
qed

text \<open>
  Claim C2. In a cycle whose output saturates, the program adds \<open>error * delta_t\<close> to the
  integral error and subtracts it again afterwards. In float arithmetic the two steps do
  not cancel. The run below saturates in cycle 1 (the raw output is above 120): the
  integral error is 0.1 before that cycle and 0.10000000000000003 after it, because
  0.1 + 0.2 rounds to 0.30000000000000004.
\<close>
theorem anti_windup_rounding:
  "fst (cycle drifting (fl (1 / 20)) 0 400 0 (init_locals 2)) = None
   \<and> fst (cycle drifting (fl (1 / 20)) 0 400 1 after_cycle_0) = None
   \<and> Q1 after_cycle_0 ! 0 = 40 \<and> Q1 after_cycle_1 ! 1 = 100
   \<and> integral_error after_cycle_0 = 7205759403792794 / 2 ^ 56
   \<and> integral_error after_cycle_1 = 7205759403792796 / 2 ^ 56
   \<and> integral_error after_cycle_1 \<noteq> integral_error after_cycle_0"
proof -
  define A :: real where "A = 7205759403792794 / 2 ^ 57"
  define B :: real where "B = 7205759403792794 / 2 ^ 56"
  define C :: real where "C = 7205759403792794 / 2 ^ 55"
  define E :: real where "E = 5404319552844596 / 2 ^ 54"
  define I :: real where "I = 8444249301319681 / 2 ^ 46"
  define F :: real where "F = 7205759403792796 / 2 ^ 56"
  have a: "fl (1 / 20) = A" unfolding A_def
    by (subst fl_eval [where q = "- 57"]) (simp_all add: rne_def power_int_minus)
  have e0: "fsub A 0 = A" unfolding A_def fsub_def
    by (subst fl_eval [where q = "- 57"]) (simp_all add: rne_def power_int_minus)
  have z: "fmul 0 x = 0" "fadd 0 0 = 0" for x by (simp_all add: fmul_def fadd_def fl_zero)
  have b0: "fmul A 2 = B" unfolding A_def B_def fmul_def
    by (subst fl_eval [where q = "- 56"]) (simp_all add: rne_def power_int_minus)
  have c0: "fadd 0 B = B" unfolding B_def fadd_def
    by (subst fl_eval [where q = "- 56"]) (simp_all add: rne_def power_int_minus)
  have i0: "fmul 400 B = 40" unfolding B_def fmul_def
    by (subst fl_eval [where q = "- 47"]) (simp_all add: rne_def power_int_minus)
  have o0: "fadd 0 40 = 40" unfolding fadd_def by (simp add: fl_numeral)
  have e1: "fsub A (- A) = B" unfolding A_def B_def fsub_def
    by (subst fl_eval [where q = "- 56"]) (simp_all add: rne_def power_int_minus)
  have b1: "fmul B 2 = C" unfolding B_def C_def fmul_def
    by (subst fl_eval [where q = "- 55"]) (simp_all add: rne_def power_int_minus)
  have c1: "fadd B C = E" unfolding B_def C_def E_def fadd_def
    by (subst fl_eval [where q = "- 54"]) (simp_all add: rne_def power_int_minus)
  have i1: "fmul 400 E = I" unfolding E_def I_def fmul_def
    by (subst fl_eval [where q = "- 46"]) (simp_all add: rne_def power_int_minus)
  have o1: "fadd 0 I = I" unfolding I_def fadd_def
    by (subst fl_eval [where q = "- 46"]) (simp_all add: rne_def power_int_minus)
  have r1: "fsub E C = F" unfolding E_def C_def F_def fsub_def
    by (subst fl_eval [where q = "- 56"]) (simp_all add: rne_def power_int_minus)
  have q0: "clip 40 0 100 = 40" by (simp add: clip_def)
  have q1: "clip I 0 100 = 100" by (simp add: clip_def I_def)
  have ne: "F \<noteq> B" by (simp add: F_def B_def)
  define s1 where "s1 = snd (cycle drifting A 0 400 0 (init_locals 2))"
  define s2 where "s2 = snd (cycle drifting A 0 400 1 s1)"
  have r0: "in_range 2 (init_locals 2)" by (simp add: in_range_def)
  have qu: "quiet drifting 0" "quiet drifting 1" by (simp_all add: quiet_def drifting_def)
  have t0: "temperature drifting (AtRead 0) = 0" "temperature drifting (AtRead 1) = - A"
    "temperature drifting (AtRead (Suc 0)) = - A"
    by (simp_all add: drifting_def a)
  have lt: "(0::nat) < 2" "(1::nat) < 2" by simp_all
  note k0 = cycle_ok [OF r0 lt(1) qu(1), where T_sp = A and Kp = 0 and Ki = 400, folded s1_def]
    and v0 = cycle_ok_control [OF r0 lt(1) qu(1), where T_sp = A and Kp = 0 and Ki = 400,
      folded s1_def]
  have f0: "fst (cycle drifting A 0 400 0 (init_locals 2)) = None" and rg1: "in_range 2 s1"
    using k0(1,2) by simp_all
  have Q0: "Q1 s1 ! 0 = 40" using v0(1) by (simp add: t0 e0 z b0 c0 i0 o0 q0 OP_bias_def delta_t_def)
  have I0: "integral_error s1 = B"
    using v0(2) by (simp add: t0 e0 z b0 c0 i0 o0 q0 OP_bias_def delta_t_def)
  note k1 = cycle_ok [OF rg1 lt(2) qu(2), where T_sp = A and Kp = 0 and Ki = 400, folded s2_def]
    and v1 = cycle_ok_control [OF rg1 lt(2) qu(2), where T_sp = A and Kp = 0 and Ki = 400,
      folded s2_def]
  have f1: "fst (cycle drifting A 0 400 1 s1) = None" using k1(1) by simp
  have Q1: "Q1 s2 ! 1 = 100"
    using v1(1) by (simp add: t0 I0 e1 z b1 c1 i1 o1 q1 OP_bias_def delta_t_def)
  have I1: "integral_error s2 = F"
    using v1(2) by (simp add: t0 I0 e1 z b1 c1 i1 o1 q1 r1 OP_bias_def delta_t_def)
  show ?thesis
    unfolding after_cycle_1_def after_cycle_0_def a s1_def [symmetric] s2_def [symmetric]
    using f0 f1 Q0 Q1 I0 I1 ne by (simp add: B_def F_def)
qed

text \<open>
  Claim C3 fails when the connection fails: \<open>lab\<close> stays \<^verbatim>\<open>None\<close>, the \<^verbatim>\<open>finally\<close> block
  skips the device, and the run ends with neither a heater command nor a close.
\<close>
theorem no_drain_without_connection:
  "fst (run_pi_controller no_device 10 30 2 0) = None
   \<and> trace (snd (run_pi_controller no_device 10 30 2 0))
       = [print_connecting, TCLab, print_error RuntimeError, print_ensuring, plt_ioff, plt_show]
   \<and> Q1_call 0 \<notin> set (trace (snd (run_pi_controller no_device 10 30 2 0)))
   \<and> close_call \<notin> set (trace (snd (run_pi_controller no_device 10 30 2 0)))"
  by (simp add: run_defs float_defs no_device_def)

text \<open>
  Claim C3, amended. In every run that reaches the \<^verbatim>\<open>try\<close> block: if the connection
  was established, the run ends, whatever happened in between, with the heater command
  0, followed by the close of the connection when that command did not raise, and then
  only the two plot calls; if the connection failed, the run sends no heater command and
  never calls close.
\<close>
theorem cleanup_on_every_exit:
  assumes "0 \<le> py_int (fdiv duration delta_t)"
  shows "let tr = trace (snd (run_pi_controller w duration T_sp Kp Ki)) in
    (fails w AtConnect = None \<longrightarrow>
       (\<exists>pre. tr = pre @ [print_ensuring, Q1_call 0]
           @ (if fails w AtFinalQ1 = None then [close_call] else []) @ [plt_ioff, plt_show]))
    \<and> (fails w AtConnect \<noteq> None \<longrightarrow>
       heater_cmds tr = [] \<and> close_call \<notin> set tr
       \<and> (\<exists>pre. tr = pre @ [print_ensuring, plt_ioff, plt_show]))"
proof -
  obtain r s where b: "try_body w T_sp Kp Ki (nat (py_int (fdiv duration delta_t)))
      (init_locals (nat (py_int (fdiv duration delta_t)))) = (r, s)" by fastforce
  note u = run_unfold(2) [OF assms b]
  from try_body_calls [OF b] have lab: "lab s \<longleftrightarrow> fails w AtConnect = None" by auto
  have 1: "\<exists>pre. trace (snd (run_pi_controller w duration T_sp Kp Ki))
       = pre @ [print_ensuring, Q1_call 0]
           @ (if fails w AtFinalQ1 = None then [close_call] else []) @ [plt_ioff, plt_show]"
    if "fails w AtConnect = None"
    unfolding u using that lab
    by (intro exI [of _ "trace s @ report r"]) (simp add: cleanup_calls_def)
  have 2: "heater_cmds (trace (snd (run_pi_controller w duration T_sp Kp Ki))) = []
      \<and> close_call \<notin> set (trace (snd (run_pi_controller w duration T_sp Kp Ki)))
      \<and> (\<exists>pre. trace (snd (run_pi_controller w duration T_sp Kp Ki))
            = pre @ [print_ensuring, plt_ioff, plt_show])"
    if "fails w AtConnect \<noteq> None"
  proof -
    from that obtain e where e: "fails w AtConnect = Some e" by auto
    from b have "(r, s) = (Some e, init_locals (nat (py_int (fdiv duration delta_t)))
        \<lparr>trace := [print_connecting, TCLab]\<rparr>)"
      by (simp add: try_body_no_connection [OF e])
    then have "r = Some e" "trace s = [print_connecting, TCLab]"
      by simp_all
    with u lab that show ?thesis
      by (cases "is_Exception e") (simp_all add: cleanup_calls_def)
  qed
  from 1 2 show ?thesis unfolding Let_def by blast
qed

theorem cleanup_on_every_exit_witness:
  "0 \<le> py_int (fdiv 2 delta_t) \<and> fails calm AtConnect = None
   \<and> drop (length (trace (snd (run_pi_controller calm 2 30 2 0))) - 5)
        (trace (snd (run_pi_controller calm 2 30 2 0)))
      = [print_ensuring, Q1_call 0, close_call, plt_ioff, plt_show]
   \<and> fails no_device AtConnect \<noteq> None
   \<and> heater_cmds (trace (snd (run_pi_controller no_device 2 30 2 0))) = []
   \<and> close_call \<notin> set (trace (snd (run_pi_controller no_device 2 30 2 0)))"
proof -
  have n: "0 \<le> py_int (fdiv 2 delta_t)" by (simp add: float_defs delta_t_def)
  have c: "fails calm AtConnect = None" "fails calm AtFinalQ1 = None" by (simp_all add: calm_def)
  have d: "fails no_device AtConnect \<noteq> None" by (simp add: no_device_def)
  from cleanup_on_every_exit [OF n, of calm 30 2 0] c
  obtain pre where "trace (snd (run_pi_controller calm 2 30 2 0))
      = pre @ [print_ensuring, Q1_call 0, close_call, plt_ioff, plt_show]"
    unfolding Let_def by auto
  from suffix_drop [OF this, of 5]
  have 1: "drop (length (trace (snd (run_pi_controller calm 2 30 2 0))) - 5)
        (trace (snd (run_pi_controller calm 2 30 2 0)))
      = [print_ensuring, Q1_call 0, close_call, plt_ioff, plt_show]" by simp
  from cleanup_on_every_exit [OF n, of no_device 30 2 0] d
  have 2: "heater_cmds (trace (snd (run_pi_controller no_device 2 30 2 0))) = []
   \<and> close_call \<notin> set (trace (snd (run_pi_controller no_device 2 30 2 0)))"
    unfolding Let_def by blast
  from n c(1) d 1 2 show ?thesis by blast
qed

text \<open>
  Claim C4. In a cycle that runs to its end with an output strictly between 0 and 100,
  the integral error after the cycle is the integral error before it plus
  \<open>error * delta_t\<close> (as float operations), with \<open>error = T_sp - T1[i]\<close>.
\<close>
theorem integral_accumulates:
  assumes "cycle w T_sp Kp Ki i s = (None, s')" and "0 < Q1 s' ! i" and "Q1 s' ! i < 100"
  shows "integral_error s' = fadd (integral_error s) (fmul (fsub T_sp (T1 s' ! i)) delta_t)"
  using assms
  by (auto simp: cycle_def Let_def emit_def external_def split: if_splits)

theorem integral_accumulates_witness:
  "cycle calm 30 2 0 0 (init_locals 1) = (None, snd (cycle calm 30 2 0 0 (init_locals 1)))
   \<and> 0 < Q1 (snd (cycle calm 30 2 0 0 (init_locals 1))) ! 0
   \<and> Q1 (snd (cycle calm 30 2 0 0 (init_locals 1))) ! 0 < 100
   \<and> integral_error (init_locals 1) = 0
   \<and> integral_error (snd (cycle calm 30 2 0 0 (init_locals 1))) = 10"
  using integral_accumulates [of calm 30 2 0 0 "init_locals 1"
      "snd (cycle calm 30 2 0 0 (init_locals 1))"]
  by (simp add: run_defs float_defs)

text \<open>
  Claim C5. For a positive duration, a run in which no call of the \<^verbatim>\<open>try\<close> block raises
  returns normally, completes exactly \<open>n = floor (duration / delta_t)\<close> cycles with
  \<open>delta_t = 2\<close>, plots \<open>n\<close> samples, and fills the four arrays of length \<open>n\<close>: sample
  \<open>i\<close> has the time stamp \<open>i * delta_t\<close> (the float product, which is the exact product
  for \<open>i\<close> below \<open>2 ^ 52\<close>), the temperature read in cycle \<open>i\<close> and the set point. The
  heater commands are 0 at the start, one per cycle, and 0 at the end.
\<close>
theorem completed_run_samples:
  assumes "0 < duration" and "connects w"
    and "\<forall>j<nat \<lfloor>fdiv duration delta_t\<rfloor>. quiet w j"
  shows "let n = nat \<lfloor>fdiv duration delta_t\<rfloor>; r = run_pi_controller w duration T_sp Kp Ki in
     delta_t = 2 \<and> fst r = None
     \<and> cycles_completed (trace (snd r)) = n \<and> samples_plotted (trace (snd r)) = n
     \<and> length (t (snd r)) = n \<and> length (T1 (snd r)) = n
     \<and> length (T_sp_array (snd r)) = n \<and> length (Q1 (snd r)) = n
     \<and> (\<forall>i<n. t (snd r) ! i = fmul (fl (of_nat i)) delta_t
            \<and> (i < 2 ^ 52 \<longrightarrow> t (snd r) ! i = of_nat i * delta_t)
            \<and> T1 (snd r) ! i = temperature w (AtRead i)
            \<and> T_sp_array (snd r) ! i = T_sp)
     \<and> heater_cmds (trace (snd r)) = 0 # map (\<lambda>i. Q1 (snd r) ! i) [0..<n] @ [0]"
proof -
  define n where "n = nat \<lfloor>fdiv duration delta_t\<rfloor>"
  have nn: "0 \<le> py_int (fdiv duration delta_t)" "nat (py_int (fdiv duration delta_t)) = n"
    using fdiv_delta_t_nonneg [OF assms(1)] by (simp_all add: py_int_nonneg n_def)
  have c: "connects w" and q: "\<forall>j<n. quiet w j"
    using assms(2,3) by (simp_all add: n_def)
  define sn where "sn = snd (main_loop w T_sp Kp Ki [0..<n]
     (init_locals n\<lparr>lab := True, trace := init_calls w\<rparr>))"
  note p = prefix_ok [OF order_refl q, of T_sp Kp Ki, folded sn_def]
  have b: "try_body w T_sp Kp Ki (nat (py_int (fdiv duration delta_t)))
      (init_locals (nat (py_int (fdiv duration delta_t)))) = (None, emit print_complete sn)"
    unfolding nn(2) try_body_connected [OF c] using p(1) by simp
  note u = run_unfold [OF nn(1) b] and f = run_fields [OF nn(1) b]
  have tr: "trace (snd (run_pi_controller w duration T_sp Kp Ki))
      = trace sn @ print_complete # cleanup_calls w True"
    using u(2) p(3) by (simp add: emit_def)
  have "delta_t = 2" by (simp add: delta_t_def)
  moreover have "fst (run_pi_controller w duration T_sp Kp Ki) = None" using u(1) by simp
  moreover have "cycles_completed (trace (snd (run_pi_controller w duration T_sp Kp Ki))) = n"
    unfolding tr using p(7) cycles_completed_append [of "trace sn" "print_complete # cleanup_calls w True"]
    by (simp add: cycles_completed_def cleanup_calls_def)
  moreover have "samples_plotted (trace (snd (run_pi_controller w duration T_sp Kp Ki))) = n"
    unfolding tr using p(8) samples_plotted_append [of "trace sn" "print_complete # cleanup_calls w True"]
    by (simp add: samples_plotted_def cleanup_calls_def)
  moreover have "length (t (snd (run_pi_controller w duration T_sp Kp Ki))) = n"
    "length (T1 (snd (run_pi_controller w duration T_sp Kp Ki))) = n"
    "length (T_sp_array (snd (run_pi_controller w duration T_sp Kp Ki))) = n"
    "length (Q1 (snd (run_pi_controller w duration T_sp Kp Ki))) = n"
    using f p(2) by (simp_all add: emit_def in_range_def)
  moreover have "\<forall>i<n. t (snd (run_pi_controller w duration T_sp Kp Ki)) ! i = fmul (fl (of_nat i)) delta_t
            \<and> (i < 2 ^ 52 \<longrightarrow> t (snd (run_pi_controller w duration T_sp Kp Ki)) ! i = of_nat i * delta_t)
            \<and> T1 (snd (run_pi_controller w duration T_sp Kp Ki)) ! i = temperature w (AtRead i)
            \<and> T_sp_array (snd (run_pi_controller w duration T_sp Kp Ki)) ! i = T_sp"
    using f p(4) timestamp_exact by (simp add: emit_def)
  moreover have "heater_cmds (trace (snd (run_pi_controller w duration T_sp Kp Ki)))
      = 0 # map (\<lambda>i. Q1 (snd (run_pi_controller w duration T_sp Kp Ki)) ! i) [0..<n] @ [0]"
    unfolding tr using p(6) f(4) by (simp add: emit_def)
  ultimately show ?thesis unfolding Let_def n_def [symmetric] by blast
qed

theorem completed_run_samples_witness:
  "(0::real) < 4 \<and> connects calm \<and> quiet calm 0 \<and> quiet calm 1
   \<and> nat \<lfloor>fdiv 4 delta_t\<rfloor> = 2
   \<and> fst (run_pi_controller calm 4 30 2 0) = None
   \<and> cycles_completed (trace (snd (run_pi_controller calm 4 30 2 0))) = 2
   \<and> samples_plotted (trace (snd (run_pi_controller calm 4 30 2 0))) = 2
   \<and> length (t (snd (run_pi_controller calm 4 30 2 0))) = 2
   \<and> t (snd (run_pi_controller calm 4 30 2 0)) ! 1 = fmul (fl (of_nat 1)) delta_t"
proof -
  have n: "nat \<lfloor>fdiv 4 delta_t\<rfloor> = 2" by (simp add: fdiv_def delta_t_def fl_numeral)
  have h: "(0::real) < 4" "connects calm" by (simp_all add: calm_def connects_def)
  have q: "quiet calm 0" "quiet calm 1" "\<forall>j<nat \<lfloor>fdiv 4 delta_t\<rfloor>. quiet calm j"
    by (simp_all add: calm_def quiet_def)
  have one: "(1::nat) < 2" by simp
  from completed_run_samples [OF h q(3), of 30 2 0] one show ?thesis
    unfolding Let_def n using h q(1,2) by blast
qed

text \<open>
  Claim C6 fails where it says that the close of the connection still runs: when the
  read of cycle 1 raises because the device was unplugged, the heater command of the
  \<^verbatim>\<open>finally\<close> block raises too, and close is never called.
\<close>
theorem close_skipped_after_sensor_failure:
  "1 < nat (py_int (fdiv 6 delta_t)) \<and> connects unplugged \<and> quiet unplugged 0
   \<and> fails unplugged (AtRead 1) = Some RuntimeError
   \<and> heater_cmds (trace (snd (run_pi_controller unplugged 6 30 2 0))) = [0, 10, 0]
   \<and> close_call \<notin> set (trace (snd (run_pi_controller unplugged 6 30 2 0)))"
  by (simp add: run_defs float_defs unplugged_def connects_def quiet_def eval_nat_numeral)

text \<open>
  Claim C6, amended. If the device connects, nothing raises in the cycles before \<open>i\<close>, and the
  temperature read of cycle \<open>i\<close> raises \<open>e\<close>, then exactly \<open>i\<close> cycles are completed and
  \<open>i\<close> samples plotted; of cycle \<open>i\<close> only the time stamp is stored (it is written
  before the read), no temperature, set point or heater output; the heater commands
  are the initial 0, those of the cycles before \<open>i\<close>, and the 0 of the \<^verbatim>\<open>finally\<close> block; after the failed read the run only reports the exception
  and runs the \<^verbatim>\<open>finally\<close> block, which commands the heater to 0 and, when that command
  does not raise, closes the connection.
\<close>
theorem sensor_failure_stops_loop:
  assumes "i < nat (py_int (fdiv duration delta_t))" and "connects w" and "\<forall>j<i. quiet w j"
    and "fails w (AtRead i) = Some e"
  shows "let r = run_pi_controller w duration T_sp Kp Ki; tr = trace (snd r) in
     cycles_completed tr = i \<and> samples_plotted tr = i
     \<and> heater_cmds tr = 0 # map (\<lambda>j. Q1 (snd r) ! j) [0..<i] @ [0]
     \<and> t (snd r) ! i = fmul (fl (of_nat i)) delta_t
     \<and> T1 (snd r) ! i = 0 \<and> T_sp_array (snd r) ! i = 0 \<and> Q1 (snd r) ! i = 0
     \<and> (\<exists>pre. tr = pre @ [T1_read] @ report (Some e) @ [print_ensuring, Q1_call 0]
            @ (if fails w AtFinalQ1 = None then [close_call] else []) @ [plt_ioff, plt_show])
     \<and> fst r = (if is_Exception e then None else Some e)"
proof -
  define n where "n = nat (py_int (fdiv duration delta_t))"
  have nn: "0 \<le> py_int (fdiv duration delta_t)" and i: "i < n" "i \<le> n"
    using assms(1) by (simp_all add: n_def)
  define s0 where "s0 = init_locals n\<lparr>lab := True, trace := init_calls w\<rparr>"
  define si where "si = snd (main_loop w T_sp Kp Ki [0..<i] s0)"
  define sf where "sf = si\<lparr>t := (t si)[i := fmul (fl (of_nat i)) delta_t],
     trace := trace si @ [T1_read]\<rparr>"
  note p = prefix_ok [OF i(2) assms(3), of T_sp Kp Ki, folded s0_def, folded si_def]
  have split: "[0..<n] = [0..<i] @ i # [Suc i..<n]"
    using i(1) by (metis le0 upt_add_eq_append upt_conv_Cons le_add_diff_inverse less_imp_le_nat)
  have ml: "main_loop w T_sp Kp Ki [0..<n] s0 = (Some e, sf)"
    unfolding split main_loop_append p(1)
    using cycle_read_fails [OF p(2) i(1) assms(4), of T_sp Kp Ki] by (simp add: sf_def)
  have b: "try_body w T_sp Kp Ki (nat (py_int (fdiv duration delta_t)))
      (init_locals (nat (py_int (fdiv duration delta_t)))) = (Some e, sf)"
    unfolding n_def [symmetric] try_body_connected [OF assms(2)]
    using ml by (simp add: s0_def)
  note u = run_unfold [OF nn b] and f = run_fields [OF nn b]
  have lab: "lab sf" using p(3) by (simp add: sf_def)
  have tr: "trace (snd (run_pi_controller w duration T_sp Kp Ki))
      = trace si @ [T1_read] @ report (Some e) @ cleanup_calls w True"
    using u(2) lab by (simp add: sf_def)
  have z: "T1 si ! i = 0 \<and> T_sp_array si ! i = 0 \<and> Q1 si ! i = 0"
    using p(5) i(1) by simp
  have "cycles_completed (trace (snd (run_pi_controller w duration T_sp Kp Ki))) = i"
    unfolding tr using p(7) by (simp add: cycles_completed_def cleanup_calls_def)
  moreover have "samples_plotted (trace (snd (run_pi_controller w duration T_sp Kp Ki))) = i"
    unfolding tr using p(8) by (simp add: samples_plotted_def cleanup_calls_def)
  moreover have "heater_cmds (trace (snd (run_pi_controller w duration T_sp Kp Ki)))
      = 0 # map (\<lambda>j. Q1 (snd (run_pi_controller w duration T_sp Kp Ki)) ! j) [0..<i] @ [0]"
    unfolding tr using p(6) f(4) by (simp add: sf_def)
  moreover have "t (snd (run_pi_controller w duration T_sp Kp Ki)) ! i
      = fmul (fl (of_nat i)) delta_t"
    using f(1) p(2) i(1) by (simp add: sf_def in_range_def)
  moreover have "T1 (snd (run_pi_controller w duration T_sp Kp Ki)) ! i = 0
      \<and> T_sp_array (snd (run_pi_controller w duration T_sp Kp Ki)) ! i = 0
      \<and> Q1 (snd (run_pi_controller w duration T_sp Kp Ki)) ! i = 0"
    using f z by (simp add: sf_def)
  moreover have "\<exists>pre. trace (snd (run_pi_controller w duration T_sp Kp Ki))
       = pre @ [T1_read] @ report (Some e) @ [print_ensuring, Q1_call 0]
            @ (if fails w AtFinalQ1 = None then [close_call] else []) @ [plt_ioff, plt_show]"
    unfolding tr by (intro exI [of _ "trace si"]) (simp add: cleanup_calls_def)
  moreover have "fst (run_pi_controller w duration T_sp Kp Ki)
      = (if is_Exception e then None else Some e)"
    using u(1) by simp
  ultimately show ?thesis unfolding Let_def by blast
qed

theorem sensor_failure_stops_loop_witness:
  "1 < nat (py_int (fdiv 6 delta_t)) \<and> connects sensor_lost \<and> quiet sensor_lost 0
   \<and> fails sensor_lost (AtRead 1) = Some RuntimeError
   \<and> cycles_completed (trace (snd (run_pi_controller sensor_lost 6 30 2 0))) = 1
   \<and> samples_plotted (trace (snd (run_pi_controller sensor_lost 6 30 2 0))) = 1
   \<and> t (snd (run_pi_controller sensor_lost 6 30 2 0)) ! 1 = fmul (fl (of_nat 1)) delta_t
   \<and> T1 (snd (run_pi_controller sensor_lost 6 30 2 0)) ! 1 = 0
   \<and> Q1 (snd (run_pi_controller sensor_lost 6 30 2 0)) ! 1 = 0
   \<and> heater_cmds (trace (snd (run_pi_controller sensor_lost 6 30 2 0))) = [0, 10, 0]
   \<and> fails sensor_lost AtFinalQ1 = None
   \<and> drop (length (trace (snd (run_pi_controller sensor_lost 6 30 2 0))) - 5)
        (trace (snd (run_pi_controller sensor_lost 6 30 2 0)))
      = [print_ensuring, Q1_call 0, close_call, plt_ioff, plt_show]
   \<and> fst (run_pi_controller sensor_lost 6 30 2 0) = None"
proof -
  have n: "1 < nat (py_int (fdiv 6 delta_t))" by (simp add: float_defs delta_t_def)
  have c: "connects sensor_lost" by (simp add: connects_def sensor_lost_def)
  have q: "\<forall>j<1. quiet sensor_lost j" "quiet sensor_lost 0"
    by (simp_all add: quiet_def sensor_lost_def)
  have f: "fails sensor_lost (AtRead 1) = Some RuntimeError" by (simp add: sensor_lost_def)
  have d: "fails sensor_lost AtFinalQ1 = None" by (simp add: sensor_lost_def)
  have q0: "Q1 (snd (run_pi_controller sensor_lost 6 30 2 0)) ! 0 = 10"
    by (simp add: run_defs float_defs sensor_lost_def eval_nat_numeral)
  note th = sensor_failure_stops_loop [OF n c q(1) f, of 30 2 0, unfolded Let_def]
  from th d obtain pre where "trace (snd (run_pi_controller sensor_lost 6 30 2 0))
      = (pre @ [T1_read] @ report (Some RuntimeError))
        @ [print_ensuring, Q1_call 0, close_call, plt_ioff, plt_show]"
    by auto
  from suffix_drop [OF this, of 5]
  have 1: "drop (length (trace (snd (run_pi_controller sensor_lost 6 30 2 0))) - 5)
        (trace (snd (run_pi_controller sensor_lost 6 30 2 0)))
      = [print_ensuring, Q1_call 0, close_call, plt_ioff, plt_show]" by simp
  from th q0 have 2: "heater_cmds (trace (snd (run_pi_controller sensor_lost 6 30 2 0))) = [0, 10, 0]"
    by simp
  from th n c q(2) f d 1 2 show ?thesis by simp
qed

text \<open>
  Claim C7 fails: the program measures no processing time. In a world where a cycle
  has spent three seconds before its sleep, the claim asks for a sleep of zero; the
  program sleeps 1.95 seconds, as in every other world.
\<close>
theorem sleep_ignores_processing_time:
  "processing_time slow_plot 0 = 3
   \<and> sleep_per_spec delta_t (processing_time slow_plot 0) = 0
   \<and> time_sleep (sleep_per_spec delta_t (processing_time slow_plot 0))
       \<notin> set (trace (snd (run_pi_controller slow_plot 2 30 2 0)))
   \<and> time_sleep (8782019273372467 / 2 ^ 52)
       \<in> set (trace (snd (run_pi_controller slow_plot 2 30 2 0)))
   \<and> cycles_completed (trace (snd (run_pi_controller slow_plot 2 30 2 0))) = 1"
  by (simp add: run_defs float_defs sleep_arg_eval sleep_per_spec_def fl_minus_one
      slow_plot_def cycles_completed_def)

text \<open>
  Claim C7, amended. Every sleep of a run has the same argument, \<open>delta_t - 0.05\<close>
  computed in float arithmetic (the binary64 number next to 1.95), independent of the
  processing time; it is positive.
\<close>
theorem sleep_is_fixed:
  assumes "time_sleep d \<in> set (trace (snd (run_pi_controller w duration T_sp Kp Ki)))"
  shows "d = fsub delta_t (fl (5 / 100)) \<and> d = 8782019273372467 / 2 ^ 52 \<and> 0 < d"
  using run_sleep_arg [OF assms] sleep_arg_value by simp

theorem sleep_is_fixed_witness:
  "time_sleep (8782019273372467 / 2 ^ 52) \<in> set (trace (snd (run_pi_controller calm 2 30 2 0)))
   \<and> 8782019273372467 / 2 ^ 52 = fsub delta_t (fl (5 / 100))
   \<and> (0::real) < 8782019273372467 / 2 ^ 52"
  using sleep_is_fixed [of "8782019273372467 / 2 ^ 52" calm 2 30 2 0]
  by (simp add: run_defs float_defs sleep_arg_eval)

text \<open>
  Claim C8. A Ki input \<open>1/0\<close> raises \<open>ZeroDivisionError\<close>, which \<^verbatim>\<open>except ValueError\<close>
  does not catch: the console stops with that exception although a valid line follows.
  An input that raises \<open>ValueError\<close>, such as \<open>1/x\<close>, is prompted for again, and \<open>1/2\<close>
  yields the quotient.
\<close>
theorem ki_division_by_zero_terminates:
  "console float_of_digits [''10'', ''30'', ''2'', ''1/0'', ''1/2''] = Inl ZeroDivisionError
   \<and> console float_of_digits [''10'', ''30'', ''2'', ''1/x'', ''1/2''] = Inr (10, 30, 2, 1 / 2)"
  by (simp add: console_def parse_Ki_def float_of_digits_def float_defs fl_half)

text \<open>
  Claim C9. If the heater command of the \<^verbatim>\<open>finally\<close> block raises, close is never
  called in the run. Close is called when the device connected and that command did not
  raise. Whatever the two calls of the \<^verbatim>\<open>finally\<close> block raise, the caller sees the same
  outcome of the run.
\<close>
theorem cleanup_failures_swallowed:
  "(fails w AtFinalQ1 \<noteq> None \<longrightarrow>
       close_call \<notin> set (trace (snd (run_pi_controller w duration T_sp Kp Ki))))
   \<and> (0 \<le> py_int (fdiv duration delta_t) \<and> fails w AtConnect = None \<and> fails w AtFinalQ1 = None
       \<longrightarrow> close_call \<in> set (trace (snd (run_pi_controller w duration T_sp Kp Ki))))
   \<and> fst (run_pi_controller (w\<lparr>fails := (fails w)(AtFinalQ1 := x, AtClose := y)\<rparr>)
            duration T_sp Kp Ki)
       = fst (run_pi_controller w duration T_sp Kp Ki)"
proof -
  have 1: "close_call \<notin> set (trace (snd (run_pi_controller w duration T_sp Kp Ki)))"
    if "fails w AtFinalQ1 \<noteq> None"
    using that run_close_call [of w duration T_sp Kp Ki] by auto
  have 2: "close_call \<in> set (trace (snd (run_pi_controller w duration T_sp Kp Ki)))"
    if n: "0 \<le> py_int (fdiv duration delta_t)" and c: "fails w AtConnect = None"
      and q: "fails w AtFinalQ1 = None"
  proof -
    obtain r s where b: "try_body w T_sp Kp Ki (nat (py_int (fdiv duration delta_t)))
      (init_locals (nat (py_int (fdiv duration delta_t)))) = (r, s)" by fastforce
    from try_body_calls [OF b] c have "lab s" by auto
    with run_unfold(2) [OF n b] q show ?thesis by (simp add: cleanup_calls_def)
  qed
  have 3: "fst (run_pi_controller (w\<lparr>fails := (fails w)(AtFinalQ1 := x, AtClose := y)\<rparr>)
            duration T_sp Kp Ki) = fst (run_pi_controller w duration T_sp Kp Ki)"
  proof -
    have "try_body (w\<lparr>fails := (fails w)(AtFinalQ1 := x, AtClose := y)\<rparr>) T_sp Kp Ki n s
        = try_body w T_sp Kp Ki n s" for n s
      by (rule try_body_cleanup_indep) simp_all
    then show ?thesis
      by (simp add: run_pi_controller_def Let_def split: prod.splits option.splits)
  qed
  from 1 2 3 show ?thesis by blast
qed

theorem cleanup_failures_swallowed_witness:
  "fails stuck_heater AtFinalQ1 \<noteq> None
   \<and> close_call \<notin> set (trace (snd (run_pi_controller stuck_heater 2 30 2 0)))
   \<and> fst (run_pi_controller stuck_heater 2 30 2 0) = None
   \<and> 0 \<le> py_int (fdiv 2 delta_t) \<and> fails calm AtConnect = None \<and> fails calm AtFinalQ1 = None
   \<and> close_call \<in> set (trace (snd (run_pi_controller calm 2 30 2 0)))"
proof -
  have n: "0 \<le> py_int (fdiv 2 delta_t)" by (simp add: float_defs delta_t_def)
  have c: "fails calm AtConnect = None" "fails calm AtFinalQ1 = None" by (simp_all add: calm_def)
  have d: "fails stuck_heater AtFinalQ1 \<noteq> None" by (simp add: stuck_heater_def)
  have e: "fst (run_pi_controller stuck_heater 2 30 2 0) = None"
    by (simp add: run_defs float_defs stuck_heater_def)
  from cleanup_failures_swallowed [of stuck_heater 2 30 2 0 None None] d
  have 1: "close_call \<notin> set (trace (snd (run_pi_controller stuck_heater 2 30 2 0)))" by blast
  from cleanup_failures_swallowed [of calm 2 30 2 0 None None] n c
  have 2: "close_call \<in> set (trace (snd (run_pi_controller calm 2 30 2 0)))" by blast
  from n c d e 1 2 show ?thesis by blast
qed

text \<open>
  Claim C10 fails for an exception that is not an instance of \<^verbatim>\<open>Exception\<close>: a
  \<open>KeyboardInterrupt\<close> during the sleep of cycle 0 reaches the caller, after the
  \<^verbatim>\<open>finally\<close> block has run.
\<close>
theorem keyboard_interrupt_propagates:
  "fst (run_pi_controller interrupted 2 30 2 0) = Some KeyboardInterrupt
   \<and> heater_cmds (trace (snd (run_pi_controller interrupted 2 30 2 0))) = [0, 10, 0]
   \<and> close_call \<in> set (trace (snd (run_pi_controller interrupted 2 30 2 0)))"
  by (simp add: run_defs float_defs interrupted_def)

text \<open>
  Claim C10, amended. In a run that reaches the \<^verbatim>\<open>try\<close> block, an exception raised
  during the connection or the loop that is an instance of \<^verbatim>\<open>Exception\<close> is caught and
  printed, and the function returns normally; any other exception reaches the caller.
  In both cases, and when nothing is raised, the \<^verbatim>\<open>finally\<close> block runs last.
\<close>
theorem exceptions_caught:
  assumes "0 \<le> py_int (fdiv duration delta_t)"
    and "try_body w T_sp Kp Ki (nat (py_int (fdiv duration delta_t)))
           (init_locals (nat (py_int (fdiv duration delta_t)))) = (r, s)"
  shows "fst (run_pi_controller w duration T_sp Kp Ki)
           = (case r of None \<Rightarrow> None | Some e \<Rightarrow> if is_Exception e then None else Some e)
     \<and> (\<forall>e. r = Some e \<and> is_Exception e \<longrightarrow>
           print_error e \<in> set (trace (snd (run_pi_controller w duration T_sp Kp Ki))))
     \<and> (\<exists>pre. trace (snd (run_pi_controller w duration T_sp Kp Ki))
           = pre @ cleanup_calls w (lab s))"
  using run_unfold [OF assms] by auto

theorem exceptions_caught_witness:
  "0 \<le> py_int (fdiv 4 delta_t)
   \<and> fst (try_body sensor_lost 30 2 0 (nat (py_int (fdiv 4 delta_t)))
        (init_locals (nat (py_int (fdiv 4 delta_t))))) = Some RuntimeError
   \<and> is_Exception RuntimeError
   \<and> fst (run_pi_controller sensor_lost 4 30 2 0) = None
   \<and> print_error RuntimeError \<in> set (trace (snd (run_pi_controller sensor_lost 4 30 2 0)))"
proof -
  have n: "0 \<le> py_int (fdiv 4 delta_t)" "nat (py_int (fdiv 4 delta_t)) = 2"
    by (simp_all add: float_defs delta_t_def)
  have b: "fst (try_body sensor_lost 30 2 0 2 (init_locals 2)) = Some RuntimeError"
    by (simp add: run_defs float_defs sensor_lost_def eval_nat_numeral)
  have "try_body sensor_lost 30 2 0 (nat (py_int (fdiv 4 delta_t)))
      (init_locals (nat (py_int (fdiv 4 delta_t))))
    = (fst (try_body sensor_lost 30 2 0 2 (init_locals 2)),
       snd (try_body sensor_lost 30 2 0 2 (init_locals 2)))"
    unfolding n(2) by simp
  from exceptions_caught [OF n(1) this] b n show ?thesis by simp
qed

end
